theory Spec2Isabelle
  imports Complex_Main "HOL-Library.Log_Nat"
begin

section \<open>Solar panel efficiency dashboard: the simulation engine\<close>

text \<open>
  The development embeds the numerical core of the dashboard: the local estimator
  \<open>simulateLocally.predict\<close> with \<open>getQualityLabel\<close> (services/api.js), the two
  generators \<open>generateYearlyEvolution\<close> and \<open>generateMaintenanceComparison\<close>, and the
  prediction handler \<open>handlePredict\<close> (App.jsx).
\<close>

subsection \<open>JavaScript numbers\<close>

text \<open>
  A JavaScript number is an IEEE 754 binary64 number. The finite ones are modelled as
  the \<^typ>\<open>real\<close> numbers they denote, and every arithmetic operation of the source
  is the exact operation followed by the rounding \<open>fl\<close> to the nearest binary64
  number, a tie going to the even significand.

  \<open>rne\<close> rounds a real number to the nearest integer, a tie going to the even one.
  \<open>tiny\<close> is the smallest positive binary64 number and \<open>quantum x\<close> is the spacing
  of the binary64 numbers around \<open>x\<close>: \<open>2 ^ (e - 52)\<close> when \<open>\<bar>x\<bar>\<close> lies between
  \<open>2 ^ e\<close> and \<open>2 ^ (e + 1)\<close>, and \<open>tiny\<close> for every subnormal \<open>x\<close>. The
  exponent is read off the bit length of \<open>\<lfloor>\<bar>x\<bar> / tiny\<rfloor>\<close>.

  The model has no largest number, no infinity and no NaN: it is the arithmetic of
  the program as long as no result exceeds the binary64 range. For the estimator this
  is lemma \<open>predict_no_overflow\<close> below; the generators only operate on
  efficiencies, which are at most 0.85, and on constants below \<open>10 ^ 6\<close>.
\<close>

definition rne :: "real \<Rightarrow> int" where
  "rne y = (let f = \<lfloor>y\<rfloor>; d = y - of_int f
            in if d < 1 / 2 then f
               else if 1 / 2 < d then f + 1
               else if even f then f else f + 1)"

definition tiny :: real where
  "tiny = 1 / 2 ^ 1074"

definition binade :: "real \<Rightarrow> nat" where
  "binade x = nat (bitlen \<lfloor>\<bar>x\<bar> / tiny\<rfloor>) - 53"

definition quantum :: "real \<Rightarrow> real" where
  "quantum x = 2 ^ binade x * tiny"

definition fl :: "real \<Rightarrow> real" where
  "fl x = of_int (rne (x / quantum x)) * quantum x"

text \<open>
  A decimal literal of the source denotes the binary64 number nearest to it; an
  integer literal below \<open>2 ^ 53\<close> denotes itself. The four operations:
\<close>

definition lit :: "real \<Rightarrow> real" where
  "lit x = fl x"

definition dadd :: "real \<Rightarrow> real \<Rightarrow> real" where
  "dadd x y = fl (x + y)"

definition dsub :: "real \<Rightarrow> real \<Rightarrow> real" where
  "dsub x y = fl (x - y)"

definition dmul :: "real \<Rightarrow> real \<Rightarrow> real" where
  "dmul x y = fl (x * y)"

definition ddiv :: "real \<Rightarrow> real \<Rightarrow> real" where
  "ddiv x y = fl (x / y)"

text \<open>
  \<open>Math.round\<close>: the nearest integer, a tie going upwards. The result is exact.
\<close>

definition math_round :: "real \<Rightarrow> real" where
  "math_round x = of_int \<lfloor>x + 1 / 2\<rfloor>"

subsection \<open>Data model\<close>

text \<open>
  The parameter object. Its keys are those of \<open>FEATURES_CONFIG\<close> followed by those of
  \<open>ADDITIONAL_FEATURES\<close>; the application state is initialised with all twelve.
\<close>

record inputs =
  irradiance :: real
  soiling_ratio :: real
  panel_age :: real
  temperature :: real
  humidity :: real
  cloud_coverage :: real
  module_temperature :: real
  wind_speed :: real
  voltage :: real
  current :: real
  pressure :: real
  maintenance_count :: real

text \<open>
  The four label strings returned by \<open>getQualityLabel\<close>, in the order of its tests:
  \<open>Faible\<close> (low), \<open>Moderee\<close> (moderate), \<open>Bonne\<close> (good) and \<open>Excellente\<close>
  (excellent).
\<close>

datatype quality_label = Faible | Moderee | Bonne | Excellente

text \<open>The object returned by a prediction, local or remote.\<close>

record prediction =
  efficiency :: real
  efficiency_percent :: real
  quality_label :: quality_label
  confidence :: string

subsection \<open>The local estimator (services/api.js)\<close>

definition getQualityLabel :: "real \<Rightarrow> quality_label" where
  "getQualityLabel e =
     (if e < lit 0.3 then Faible
      else if e < lit 0.5 then Moderee
      else if e < lit 0.7 then Bonne
      else Excellente)"

text \<open>
  \<open>predict\<close> updates the local variable \<open>efficiency\<close> seven times; each \<open>let\<close> below is
  one assignment of the source, in its order.
\<close>

definition predict :: "inputs \<Rightarrow> prediction" where
  "predict i =
     (let e0 = lit 0.3;
          e1 = dadd e0 (dmul (ddiv (irradiance i) 1000) (lit 0.35));
          e2 = dadd e1 (dmul (soiling_ratio i) (lit 0.15));
          e3 = dsub e2 (dmul (ddiv (panel_age i) 35) (lit 0.08));
          e4 = (if temperature i > 25
                then dsub e3 (dmul (ddiv (dsub (temperature i) 25) 100) (lit 0.03))
                else e3);
          e5 = dsub e4 (dmul (ddiv (humidity i) 100) (lit 0.02));
          e6 = dsub e5 (dmul (ddiv (cloud_coverage i) 100) (lit 0.02));
          e7 = max (lit 0.1) (min (lit 0.85) e6)
      in \<lparr> efficiency = e7,
           efficiency_percent = dmul e7 100,
           quality_label = getQualityLabel e7,
           confidence = ''simulated'' \<rparr>)"

text \<open>
  The largest binary64 number and the spacing of the numbers next to it, and the
  list of the results of all the operations of \<open>predict\<close> before the clamp (the
  three of the temperature update are listed whether it is taken or not).
\<close>

definition top_quantum :: real where
  "top_quantum = 2 ^ 971"

definition max_double :: real where
  "max_double = (2 ^ 53 - 1) * top_quantum"

definition predict_results :: "inputs \<Rightarrow> real list" where
  "predict_results i =
     (let a1 = ddiv (irradiance i) 1000;
          a2 = dmul a1 (lit 0.35);
          e1 = dadd (lit 0.3) a2;
          b1 = dmul (soiling_ratio i) (lit 0.15);
          e2 = dadd e1 b1;
          c1 = ddiv (panel_age i) 35;
          c2 = dmul c1 (lit 0.08);
          e3 = dsub e2 c2;
          t1 = dsub (temperature i) 25;
          t2 = ddiv t1 100;
          t3 = dmul t2 (lit 0.03);
          e4 = (if temperature i > 25 then dsub e3 t3 else e3);
          h1 = ddiv (humidity i) 100;
          h2 = dmul h1 (lit 0.02);
          e5 = dsub e4 h2;
          k1 = ddiv (cloud_coverage i) 100;
          k2 = dmul k1 (lit 0.02);
          e6 = dsub e5 k2
      in [a1, a2, e1, b1, e2, c1, c2, e3, t1, t2, t3, e4, h1, h2, e5, k1, k2, e6])"

text \<open>
  An abbreviation for stating properties: the clamped sum as a function of the six
  numbers it is computed from. An update that is skipped subtracts 0.
\<close>

definition estimate :: "real \<Rightarrow> real \<Rightarrow> real \<Rightarrow> real \<Rightarrow> real \<Rightarrow> real \<Rightarrow> real" where
  "estimate irr soil age temp hum cloud =
     max (lit 0.1) (min (lit 0.85)
       (dsub (dsub (dsub (dsub (dadd (dadd
          (lit 0.3)
          (dmul (ddiv irr 1000) (lit 0.35)))
          (dmul soil (lit 0.15)))
          (dmul (ddiv age 35) (lit 0.08)))
          (if temp > 25 then dmul (ddiv (dsub temp 25) 100) (lit 0.03) else 0))
          (dmul (ddiv hum 100) (lit 0.02)))
          (dmul (ddiv cloud 100) (lit 0.02))))"

subsection \<open>The estimator as the specification writes it\<close>

text \<open>
  The formula of the specification, read from left to right in binary64 arithmetic,
  and its label thresholds.
\<close>

definition clamp :: "real \<Rightarrow> real \<Rightarrow> real \<Rightarrow> real" where
  "clamp x lo hi = max lo (min hi x)"

definition spec_efficiency :: "inputs \<Rightarrow> real" where
  "spec_efficiency p =
     clamp
       (dsub (dsub (dsub (dsub (dadd (dadd
          (lit 0.30)
          (dmul (ddiv (irradiance p) 1000) (lit 0.35)))
          (dmul (soiling_ratio p) (lit 0.15)))
          (dmul (ddiv (panel_age p) 35) (lit 0.08)))
          (dmul (ddiv (max 0 (dsub (temperature p) 25)) 100) (lit 0.03)))
          (dmul (ddiv (humidity p) 100) (lit 0.02)))
          (dmul (ddiv (cloud_coverage p) 100) (lit 0.02)))
       (lit 0.10) (lit 0.85)"

definition spec_label :: "real \<Rightarrow> quality_label" where
  "spec_label e =
     (if e < lit 0.30 then Faible else if e < lit 0.50 then Moderee
      else if e < lit 0.70 then Bonne else Excellente)"

text \<open>The example vector of the specification; the keys it leaves out take the
  defaults of the application.\<close>

definition example_vector :: inputs where
  "example_vector =
     \<lparr> irradiance = 500, soiling_ratio = lit 0.7, panel_age = 10, temperature = 25,
       humidity = 50, cloud_coverage = 30, module_temperature = 35, wind_speed = 7,
       voltage = 30, current = 2, pressure = 1013, maintenance_count = 3 \<rparr>"

subsection \<open>The yearly evolution (App.jsx)\<close>

text \<open>
  The three status strings of a yearly record: \<open>Bon\<close> (good), \<open>Acceptable\<close> and
  \<open>A_remplacer\<close> (to be replaced).
\<close>

datatype status = Bon | Acceptable | A_remplacer

text \<open>
  One element of the array built by \<open>generateYearlyEvolution\<close>. The key \<open>efficiency\<close>
  of the source is \<open>efficiency_1\<close> here (the percentage rounded to one decimal), since
  a prediction has a key of the same name. The key \<open>yearLabel\<close>, a text printed from
  \<open>year\<close>, is left out.
\<close>

record yearly_record =
  year :: nat
  efficiency_1 :: real
  production :: real
  degradation :: real
  status :: status

text \<open>Reading a property of \<open>undefined\<close> throws a \<open>TypeError\<close>.\<close>

datatype js_error = TypeError

text \<open>
  The \<open>for\<close> loop of \<open>generateYearlyEvolution\<close>, with its two variables \<open>year\<close> and
  \<open>data\<close> as arguments. \<open>data[0]\<close> is \<open>undefined\<close> on an empty array.
\<close>

function evolution_loop ::
  "inputs \<Rightarrow> int \<Rightarrow> nat \<Rightarrow> yearly_record list \<Rightarrow> js_error + yearly_record list" where
  "evolution_loop baseInputs maxYears yr data =
     (if int yr \<le> maxYears then
        (let inputs = baseInputs\<lparr>panel_age := real yr\<rparr>;
             result = predict inputs;
             eff = dmul (efficiency result) 100;
             panelPower = 400;
             sunHoursPerYear = 1500;
             annualProduction =
               ddiv (dmul (dmul panelPower sunHoursPerYear) (efficiency result)) 1000
         in case (if yr = 0 then Inr eff
                  else (case data of [] \<Rightarrow> Inl TypeError
                        | d # _ \<Rightarrow> Inr (efficiency_1 d))) of
              Inl err \<Rightarrow> Inl err
            | Inr initialEfficiency \<Rightarrow>
                (let degr = dmul (ddiv (dsub initialEfficiency eff) initialEfficiency) 100
                 in evolution_loop baseInputs maxYears (Suc yr)
                      (data @ [\<lparr> year = yr,
                                 efficiency_1 = ddiv (math_round (dmul eff 10)) 10,
                                 production = math_round annualProduction,
                                 degradation = ddiv (math_round (dmul degr 10)) 10,
                                 status = (if eff \<ge> 60 then Bon
                                           else if eff \<ge> 45 then Acceptable
                                           else A_remplacer) \<rparr>])))
      else Inr data)"
  by pat_completeness auto
termination
  by (relation "measure (\<lambda>(b, m, y, d). nat (m + 1) - y)") auto

text \<open>The second parameter is optional and defaults to 35.\<close>

definition generateYearlyEvolution ::
  "inputs \<Rightarrow> int option \<Rightarrow> js_error + yearly_record list" where
  "generateYearlyEvolution baseInputs maxYears =
     evolution_loop baseInputs (case maxYears of None \<Rightarrow> 35 | Some m \<Rightarrow> m) 0 []"

text \<open>
  Two abbreviations for stating what the loop produces: the percentage of a year before
  \<open>Math.round\<close> is applied (the local variable \<open>efficiency\<close> of the loop body), and the
  record that one iteration pushes when \<open>initialEfficiency\<close> has the value \<open>init\<close>.
\<close>

definition raw_percent :: "inputs \<Rightarrow> nat \<Rightarrow> real" where
  "raw_percent baseInputs yr =
     dmul (efficiency (predict (baseInputs\<lparr>panel_age := real yr\<rparr>))) 100"

definition pushed_record :: "inputs \<Rightarrow> real \<Rightarrow> nat \<Rightarrow> yearly_record" where
  "pushed_record baseInputs init yr =
     \<lparr> year = yr,
       efficiency_1 = ddiv (math_round (dmul (raw_percent baseInputs yr) 10)) 10,
       production = math_round (ddiv (dmul (dmul 400 1500)
         (efficiency (predict (baseInputs\<lparr>panel_age := real yr\<rparr>)))) 1000),
       degradation = ddiv (math_round (dmul
         (dmul (ddiv (dsub init (raw_percent baseInputs yr)) init) 100) 10)) 10,
       status = (if raw_percent baseInputs yr \<ge> 60 then Bon
                 else if raw_percent baseInputs yr \<ge> 45 then Acceptable
                 else A_remplacer) \<rparr>"

text \<open>A vector whose percentage at age 0 is a little below 59.97.\<close>

definition borderline_vector :: inputs where
  "borderline_vector =
     \<lparr> irradiance = 500, soiling_ratio = lit 0.85, panel_age = 10, temperature = 25,
       humidity = 10, cloud_coverage = 4, module_temperature = 35, wind_speed = 7,
       voltage = 30, current = 2, pressure = 1013, maintenance_count = 3 \<rparr>"

text \<open>
  Four vectors for which the sum of the terms is 0.5, 0.3, 0.45 and 0.6 in exact
  arithmetic; the other keys have the defaults of the application.
\<close>

definition sample_vector :: "real \<Rightarrow> real \<Rightarrow> real \<Rightarrow> inputs" where
  "sample_vector irr soil age =
     \<lparr> irradiance = irr, soiling_ratio = soil, panel_age = age, temperature = 25,
       humidity = 50, cloud_coverage = 30, module_temperature = 35, wind_speed = 7,
       voltage = 30, current = 2, pressure = 1013, maintenance_count = 3 \<rparr>"

text \<open>The record that the loop pushes for the borderline vector at year 0.\<close>

definition borderline_record :: yearly_record where
  "borderline_record =
     \<lparr> year = 0, efficiency_1 = 60, production = 360, degradation = 0,
       status = Acceptable \<rparr>"

subsection \<open>The maintenance comparison (App.jsx)\<close>

text \<open>
  The four scenario names, in the order of the table: \<open>Sans entretien\<close> (no
  maintenance), \<open>Entretien minimal\<close>, \<open>Entretien regulier\<close> and \<open>Entretien optimal\<close>.
\<close>

datatype scenario_name =
  Sans_entretien | Entretien_minimal | Entretien_regulier | Entretien_optimal

record scenario =
  name :: scenario_name
  soilingDecay :: real
  maintenanceBonus :: real

definition scenarios :: "scenario list" where
  "scenarios =
     [\<lparr> name = Sans_entretien, soilingDecay = lit 0.015, maintenanceBonus = 0 \<rparr>,
      \<lparr> name = Entretien_minimal, soilingDecay = lit 0.008, maintenanceBonus = lit 0.002 \<rparr>,
      \<lparr> name = Entretien_regulier, soilingDecay = lit 0.003, maintenanceBonus = lit 0.005 \<rparr>,
      \<lparr> name = Entretien_optimal, soilingDecay = 0, maintenanceBonus = lit 0.008 \<rparr>]"

definition years :: "nat list" where
  "years = [0, 5, 10, 15, 20, 25, 30]"

text \<open>
  One element of the array built by \<open>generateMaintenanceComparison\<close>: an object with
  the key \<open>year\<close> and one key for each scenario name. \<open>point_year\<close> is the number the
  text under \<open>year\<close> is printed from; \<open>series\<close> holds the keys that are scenario names.
\<close>

record data_point =
  point_year :: nat
  series :: "scenario_name \<rightharpoonup> real"

text \<open>The body of \<open>scenarios.forEach\<close> in the branch of year 0.\<close>

definition assign_initial :: "real \<Rightarrow> data_point \<Rightarrow> scenario \<Rightarrow> data_point" where
  "assign_initial initialEfficiency dataPoint sc =
     dataPoint\<lparr>series := (series dataPoint)(name sc \<mapsto> initialEfficiency)\<rparr>"

text \<open>The body of \<open>scenarios.forEach\<close> in the branch of the later years.\<close>

definition assign_scenario ::
  "inputs \<Rightarrow> prediction \<Rightarrow> nat \<Rightarrow> data_point \<Rightarrow> scenario \<Rightarrow> data_point" where
  "assign_scenario baseInputs initialResult yr dataPoint sc =
     (let soilingAfterYears = max (lit 0.4) (dsub (lit 0.85) (dmul (soilingDecay sc) (real yr)));
          inputs = baseInputs\<lparr>panel_age := real yr,
                              soiling_ratio := soilingAfterYears,
                              maintenance_count := min (real yr) 10\<rparr>;
          result = predict inputs;
          eff = dadd (efficiency result) (dmul (maintenanceBonus sc) (real yr));
          eff' = min eff (efficiency initialResult)
      in dataPoint\<lparr>series :=
           (series dataPoint)(name sc \<mapsto> ddiv (math_round (dmul eff' 1000)) 10)\<rparr>)"

definition generateMaintenanceComparison :: "inputs \<Rightarrow> data_point list" where
  "generateMaintenanceComparison baseInputs =
     (let initialInputs = baseInputs\<lparr>panel_age := 0,
                                     soiling_ratio := lit 0.85,
                                     maintenance_count := 0\<rparr>;
          initialResult = predict initialInputs;
          initialEfficiency = ddiv (math_round (dmul (efficiency initialResult) 1000)) 10
      in map (\<lambda>yr.
           let dataPoint = \<lparr> point_year = yr, series = Map.empty \<rparr>
           in if yr = 0
              then foldl (assign_initial initialEfficiency) dataPoint scenarios
              else foldl (assign_scenario baseInputs initialResult yr) dataPoint scenarios)
         years)"

text \<open>
  The reference value of the specification: the efficiency of the base vector with
  panel age 0, soiling ratio 0.85 and maintenance count 0, as a percentage rounded to
  one decimal.
\<close>

definition reference_percent :: "inputs \<Rightarrow> real" where
  "reference_percent base =
     ddiv (math_round (dmul (efficiency (predict (base\<lparr>panel_age := 0,
       soiling_ratio := lit 0.85, maintenance_count := 0\<rparr>))) 1000)) 10"

text \<open>
  Two abbreviations for stating what the comparison produces: the prediction that
  \<open>generateMaintenanceComparison\<close> keeps in \<open>initialResult\<close>, and the number that
  \<open>assign_scenario\<close> stores under the name of a scenario.
\<close>

definition initial_result :: "inputs \<Rightarrow> prediction" where
  "initial_result baseInputs =
     predict (baseInputs\<lparr>panel_age := 0, soiling_ratio := lit 0.85, maintenance_count := 0\<rparr>)"

definition stored :: "inputs \<Rightarrow> prediction \<Rightarrow> nat \<Rightarrow> scenario \<Rightarrow> real" where
  "stored baseInputs initialResult yr sc =
     ddiv (math_round (dmul (min (dadd (efficiency (predict (baseInputs\<lparr>panel_age := real yr,
         soiling_ratio := max (lit 0.4) (dsub (lit 0.85) (dmul (soilingDecay sc) (real yr))),
         maintenance_count := min (real yr) 10\<rparr>))) (dmul (maintenanceBonus sc) (real yr)))
       (efficiency initialResult)) 1000)) 10"

subsection \<open>The prediction handler (App.jsx)\<close>

text \<open>The values of the state variable \<open>apiStatus\<close>; it starts as \<open>Checking\<close>.\<close>

datatype api_status = Checking | Connected | Disconnected

text \<open>
  \<open>checkApi\<close> awaits the health request once: whatever it throws, with message \<open>m\<close>, is
  \<open>Inl m\<close>, and a response is \<open>Inr ()\<close>.
\<close>

definition checkApi :: "string + unit \<Rightarrow> api_status" where
  "checkApi health = (case health of Inl _ \<Rightarrow> Disconnected | Inr _ \<Rightarrow> Connected)"

text \<open>The three state variables that \<open>handlePredict\<close> writes.\<close>

record app_state =
  prediction :: "prediction option"
  isLoading :: bool
  error :: "string option"

text \<open>
  \<open>handlePredict\<close>, from the state at the call to the state once it has settled. The
  remote call \<open>solarApi.predict\<close> is a parameter: it throws an error with a message
  (\<open>Inl\<close>) or returns the body of the response (\<open>Inr\<close>). The wait of 500 ms before the
  local estimate is not part of the model.
\<close>

definition handlePredict ::
  "api_status \<Rightarrow> (inputs \<Rightarrow> string + prediction) \<Rightarrow> inputs \<Rightarrow> app_state \<Rightarrow> app_state" where
  "handlePredict apiStatus remote inputs st =
     (let st1 = st\<lparr>isLoading := True\<rparr>;
          st2 = st1\<lparr>error := None\<rparr>;
          st3 = (case (if apiStatus = Connected then remote inputs
                       else Inr (predict inputs)) of
                   Inr result \<Rightarrow> st2\<lparr>prediction := Some result\<rparr>
                 | Inl message \<Rightarrow>
                     (let st' = st2\<lparr>error := Some message\<rparr>;
                          result = predict inputs
                      in st'\<lparr>prediction := Some result\<rparr>))
      in st3\<lparr>isLoading := False\<rparr>)"

section \<open>Properties of the arithmetic\<close>

subsection \<open>Rounding to the nearest integer\<close>

lemma rne_of_int [simp]: "rne (of_int n) = n"
  by (simp add: rne_def)

lemma rne_lower: "\<lfloor>y\<rfloor> \<le> rne y"
  by (simp add: rne_def Let_def)

lemma rne_upper: "rne y \<le> \<lfloor>y\<rfloor> + 1"
  by (simp add: rne_def Let_def)

lemma rne_mono: assumes "x \<le> y" shows "rne x \<le> rne y"
proof (cases "\<lfloor>x\<rfloor> = \<lfloor>y\<rfloor>")
  case True
  with assms have "x - of_int \<lfloor>x\<rfloor> \<le> y - of_int \<lfloor>y\<rfloor>" by simp
  with True show ?thesis by (auto simp: rne_def Let_def)
next
  case False
  with assms have "\<lfloor>x\<rfloor> < \<lfloor>y\<rfloor>" by (simp add: floor_mono order.strict_iff_order)
  then have "\<lfloor>x\<rfloor> + 1 \<le> \<lfloor>y\<rfloor>" by simp
  with rne_upper [of x] rne_lower [of y] show ?thesis by linarith
qed

lemma rne_minus: "rne (- y) = - rne y"
proof (cases "y \<in> \<int>")
  case True
  then obtain n where "y = of_int n" by (auto elim: Ints_cases)
  then have "- y = of_int (- n)" by simp
  then show ?thesis using \<open>y = of_int n\<close> by (simp only: rne_of_int)
next
  case False
  have ne: "y \<noteq> of_int \<lfloor>y\<rfloor>"
  proof
    assume "y = of_int \<lfloor>y\<rfloor>"
    then have "y \<in> \<int>" by (metis Ints_of_int)
    with False show False ..
  qed
  then have f: "\<lfloor>- y\<rfloor> = - \<lfloor>y\<rfloor> - 1"
    by (simp add: floor_minus ceiling_altdef)
  from ne have d: "0 < y - of_int \<lfloor>y\<rfloor>" "y - of_int \<lfloor>y\<rfloor> < 1"
    by linarith+
  show ?thesis
    using d unfolding rne_def Let_def f by (auto simp: algebra_simps)
qed

lemma rne_ge_int: "of_int n \<le> y \<Longrightarrow> n \<le> rne y"
  using rne_mono [of "of_int n" y] by simp

lemma rne_le_int: "y \<le> of_int n \<Longrightarrow> rne y \<le> n"
  using rne_mono [of y "of_int n"] by simp


lemma rne_abs_le: "\<bar>y\<bar> \<le> of_int n \<Longrightarrow> \<bar>rne y\<bar> \<le> n"
  using rne_le_int [of y n] rne_ge_int [of "- n" y] by (simp add: abs_le_iff)

lemma rne_0 [simp]: "rne 0 = 0"
  by (simp add: rne_def)

lemma real_le_pow2: "(n::int) \<le> 2 ^ k \<Longrightarrow> real_of_int n \<le> 2 ^ k"
  by (metis of_int_le_iff of_int_numeral of_int_power)

lemma real_ge_pow2: "2 ^ k \<le> (n::int) \<Longrightarrow> 2 ^ k \<le> real_of_int n"
  by (metis of_int_le_iff of_int_numeral of_int_power)

lemma real_less_pow2: "(n::int) < 2 ^ k \<Longrightarrow> real_of_int n < 2 ^ k"
  by (metis of_int_less_iff of_int_numeral of_int_power)

subsection \<open>quantum\<close>

lemma tiny_pos [simp]: "0 < tiny"
  by (simp add: tiny_def)

lemma tiny_nonneg [simp]: "0 \<le> tiny"
  by (simp add: tiny_def)

lemma quantum_pos [simp]: "0 < quantum x"
  by (simp add: quantum_def)

lemma quantum_nonneg [simp]: "0 \<le> quantum x"
  using quantum_pos [of x] by (rule less_imp_le)

lemma quantum_minus [simp]: "quantum (- x) = quantum x"
  by (simp add: quantum_def binade_def)

lemma binade_upper: "\<bar>x\<bar> / tiny < 2 ^ (binade x + 53)"
proof -
  let ?n = "\<lfloor>\<bar>x\<bar> / tiny\<rfloor>"
  have "0 \<le> \<bar>x\<bar> / tiny" by (intro divide_nonneg_pos) simp_all
  then have n0: "0 \<le> ?n" by simp
  have "?n < 2 ^ nat (bitlen ?n)"
  proof (cases "0 < ?n")
    case True
    with bitlen_bounds [of ?n] show ?thesis by blast
  next
    case False
    with n0 have "?n = 0" by linarith
    then show ?thesis by simp
  qed
  also have "\<dots> \<le> 2 ^ (binade x + 53)"
    by (rule power_increasing) (simp_all add: binade_def)
  finally have "?n < 2 ^ (binade x + 53)" .
  then have "?n + 1 \<le> 2 ^ (binade x + 53)" by simp
  then have "real_of_int (?n + 1) \<le> 2 ^ (binade x + 53)"
    by (rule real_le_pow2)
  moreover have "\<bar>x\<bar> / tiny < real_of_int (?n + 1)"
    by linarith
  ultimately show ?thesis by linarith
qed

lemma binade_lower:
  assumes "0 < binade x"
  shows "2 ^ (binade x + 52) \<le> \<bar>x\<bar> / tiny"
proof -
  let ?n = "\<lfloor>\<bar>x\<bar> / tiny\<rfloor>"
  from assms have b: "nat (bitlen ?n) = binade x + 53"
    by (simp add: binade_def)
  then have "0 < ?n"
    using bitlen_eq_zero_iff [of ?n] by (cases "0 < ?n") auto
  with bitlen_bounds [of ?n] have "2 ^ nat (bitlen ?n - 1) \<le> ?n" by blast
  moreover from b have "nat (bitlen ?n - 1) = binade x + 52"
    by linarith
  ultimately have "(2::int) ^ (binade x + 52) \<le> ?n" by simp
  then have "2 ^ (binade x + 52) \<le> real_of_int ?n"
    by (rule real_ge_pow2)
  also have "\<dots> \<le> \<bar>x\<bar> / tiny" by linarith
  finally show ?thesis .
qed

lemma pow2_gap: "j + 1 \<le> k \<Longrightarrow> (2::real) ^ (j + 53) \<le> 2 ^ (k + 52)"
  by (rule power_increasing) simp_all

lemma binade_eqI:
  assumes "\<bar>x\<bar> / tiny < 2 ^ (k + 53)"
    and "k = 0 \<or> 2 ^ (k + 52) \<le> \<bar>x\<bar> / tiny"
  shows "binade x = k"
proof (rule antisym)
  show "binade x \<le> k"
  proof (rule ccontr)
    assume "\<not> binade x \<le> k"
    then have p: "0 < binade x" and "k + 1 \<le> binade x" by simp_all
    from pow2_gap [OF this(2)] binade_lower [OF p] assms(1) show False by linarith
  qed
next
  show "k \<le> binade x"
  proof (rule ccontr)
    assume "\<not> k \<le> binade x"
    then have p: "0 < k" and "binade x + 1 \<le> k" by simp_all
    from p assms(2) have "2 ^ (k + 52) \<le> \<bar>x\<bar> / tiny" by simp
    with pow2_gap [OF \<open>binade x + 1 \<le> k\<close>] binade_upper [of x] show False by linarith
  qed
qed

lemma binade_mono:
  assumes "\<bar>x\<bar> \<le> \<bar>y\<bar>"
  shows "binade x \<le> binade y"
proof (rule ccontr)
  assume "\<not> binade x \<le> binade y"
  then have p: "0 < binade x" and "binade y + 1 \<le> binade x" by simp_all
  from pow2_gap [OF this(2)] binade_lower [OF p] binade_upper [of y]
  have "\<bar>y\<bar> / tiny < \<bar>x\<bar> / tiny" by linarith
  then have "\<bar>y\<bar> < \<bar>x\<bar>" by (simp add: divide_less_cancel)
  with assms show False by simp
qed

text \<open>In terms of the quantum.\<close>

lemma below_quantum: "\<bar>x\<bar> < 2 ^ 53 * quantum x"
proof -
  have "\<bar>x\<bar> / tiny < 2 ^ 53 * 2 ^ binade x"
    using binade_upper [of x] by (simp add: power_add mult.commute)
  then have "\<bar>x\<bar> < 2 ^ 53 * 2 ^ binade x * tiny"
    by (simp add: pos_divide_less_eq)
  then show ?thesis by (simp add: quantum_def mult.assoc)
qed

lemma above_quantum:
  assumes "0 < binade x"
  shows "2 ^ 52 * quantum x \<le> \<bar>x\<bar>"
proof -
  have "2 ^ 52 * 2 ^ binade x \<le> \<bar>x\<bar> / tiny"
    using binade_lower [OF assms] by (simp add: power_add mult.commute)
  then have "2 ^ 52 * 2 ^ binade x * tiny \<le> \<bar>x\<bar>"
    by (simp add: pos_le_divide_eq)
  then show ?thesis by (simp add: quantum_def mult.assoc)
qed

lemma quantum_eqI:
  assumes "\<bar>x\<bar> < 2 ^ 53 * (2 ^ k * tiny)"
    and "k = 0 \<or> 2 ^ 52 * (2 ^ k * tiny) \<le> \<bar>x\<bar>"
  shows "quantum x = 2 ^ k * tiny"
proof -
  from assms(1) have "\<bar>x\<bar> / tiny < 2 ^ (k + 53)"
    by (simp add: pos_divide_less_eq power_add mult.assoc mult.commute)
  moreover from assms(2) have "k = 0 \<or> 2 ^ (k + 52) \<le> \<bar>x\<bar> / tiny"
    by (auto simp: pos_le_divide_eq power_add mult.assoc mult.commute)
  ultimately have "binade x = k" by (rule binade_eqI)
  then show ?thesis by (simp add: quantum_def)
qed


subsection \<open>fl\<close>

lemma fl_0 [simp]: "fl 0 = 0"
  by (simp add: fl_def)

lemma fl_minus: "fl (- x) = - fl x"
  by (simp add: fl_def rne_minus)

lemma fl_nonneg: "0 \<le> x \<Longrightarrow> 0 \<le> fl x"
proof -
  assume "0 \<le> x"
  then have "of_int 0 \<le> x / quantum x" by simp
  then have "0 \<le> rne (x / quantum x)" by (rule rne_ge_int)
  then show ?thesis by (simp add: fl_def)
qed

lemma fl_nonpos: "x \<le> 0 \<Longrightarrow> fl x \<le> 0"
  using fl_nonneg [of "- x"] by (simp add: fl_minus)

lemma rne_quotient_le: "\<bar>rne (x / quantum x)\<bar> \<le> 2 ^ 53"
proof -
  have "\<bar>x\<bar> / quantum x \<le> 2 ^ 53"
    using below_quantum [of x] by (simp add: pos_divide_le_eq)
  then have "\<bar>x / quantum x\<bar> \<le> of_int (2 ^ 53)"
    by simp
  then show ?thesis by (rule rne_abs_le)
qed

lemma fl_upper: "\<bar>fl x\<bar> \<le> 2 ^ 53 * quantum x"
proof -
  have "\<bar>real_of_int (rne (x / quantum x))\<bar> \<le> 2 ^ 53"
    using real_le_pow2 [OF rne_quotient_le [of x]] by simp
  then have "\<bar>real_of_int (rne (x / quantum x))\<bar> * quantum x \<le> 2 ^ 53 * quantum x"
    by (intro mult_right_mono) simp_all
  then show ?thesis
    by (simp add: fl_def abs_mult)
qed

lemma fl_lower:
  assumes "0 \<le> x" and "0 < binade x"
  shows "2 ^ 52 * quantum x \<le> fl x"
proof -
  have "2 ^ 52 \<le> x / quantum x"
    using above_quantum [OF assms(2)] assms(1) by (simp add: pos_le_divide_eq)
  then have "of_int (2 ^ 52) \<le> x / quantum x" by simp
  then have "2 ^ 52 \<le> rne (x / quantum x)" by (rule rne_ge_int)
  then have "2 ^ 52 \<le> real_of_int (rne (x / quantum x))"
    by (rule real_ge_pow2)
  then have "2 ^ 52 * quantum x \<le> real_of_int (rne (x / quantum x)) * quantum x"
    by (intro mult_right_mono) simp_all
  then show ?thesis
    by (simp add: fl_def)
qed

lemma fl_mono_nonneg:
  assumes "0 \<le> x" and "x \<le> y"
  shows "fl x \<le> fl y"
proof (cases "binade x = binade y")
  case True
  then have q: "quantum x = quantum y" by (simp add: quantum_def)
  have "x / quantum y \<le> y / quantum y"
    using assms(2) by (intro divide_right_mono) simp_all
  then have "rne (x / quantum y) \<le> rne (y / quantum y)" by (rule rne_mono)
  then have "real_of_int (rne (x / quantum y)) * quantum y
      \<le> real_of_int (rne (y / quantum y)) * quantum y"
    by (intro mult_right_mono) simp_all
  then show ?thesis by (simp add: fl_def q)
next
  case False
  from assms have "\<bar>x\<bar> \<le> \<bar>y\<bar>" by simp
  from binade_mono [OF this] False have lt: "binade x + 1 \<le> binade y" by simp
  then have posy: "0 < binade y" by simp
  have "(2::real) ^ (binade x + 1) \<le> 2 ^ binade y"
    using lt by (intro power_increasing) simp_all
  then have "2 ^ (binade x + 1) * tiny \<le> 2 ^ binade y * tiny"
    by (intro mult_right_mono) simp_all
  then have "2 * quantum x \<le> quantum y"
    by (simp add: quantum_def)
  then have "2 ^ 53 * quantum x \<le> 2 ^ 52 * quantum y" by simp
  moreover have "fl x \<le> 2 ^ 53 * quantum x"
    using fl_upper [of x] by simp
  moreover have "0 \<le> y" using assms by simp
  then have "2 ^ 52 * quantum y \<le> fl y"
    using posy by (rule fl_lower)
  ultimately show ?thesis by linarith
qed

lemma fl_mono:
  assumes "x \<le> y"
  shows "fl x \<le> fl y"
proof (cases "0 \<le> x")
  case True
  then show ?thesis using assms by (rule fl_mono_nonneg)
next
  case False
  show ?thesis
  proof (cases "y \<le> 0")
    case True
    with assms have "0 \<le> - y" "- y \<le> - x" by simp_all
    from fl_mono_nonneg [OF this] show ?thesis by (simp add: fl_minus)
  next
    case False
    with \<open>\<not> 0 \<le> x\<close> have "fl x \<le> 0" "0 \<le> fl y"
      by (simp_all add: fl_nonneg fl_nonpos)
    then show ?thesis by simp
  qed
qed

text \<open>Fixed points.\<close>

lemma fl_fix_normal:
  assumes "\<bar>m\<bar> < 2 ^ 53" and "k = 0 \<or> 2 ^ 52 \<le> \<bar>m\<bar>"
  shows "fl (of_int m * (2 ^ k * tiny)) = of_int m * (2 ^ k * tiny)"
proof -
  have m1: "\<bar>real_of_int m\<bar> < 2 ^ 53"
    using real_less_pow2 [OF assms(1)] by simp
  have m2: "k = 0 \<or> 2 ^ 52 \<le> \<bar>real_of_int m\<bar>"
    using assms(2) real_ge_pow2 [of 52 "\<bar>m\<bar>"] by auto
  have pos: "0 < (2::real) ^ k * tiny" by simp
  have "quantum (of_int m * (2 ^ k * tiny)) = 2 ^ k * tiny"
  proof (rule quantum_eqI)
    have "\<bar>real_of_int m\<bar> * (2 ^ k * tiny) < 2 ^ 53 * (2 ^ k * tiny)"
      using m1 pos by (intro mult_strict_right_mono)
    then show "\<bar>of_int m * (2 ^ k * tiny)\<bar> < 2 ^ 53 * (2 ^ k * tiny)"
      by (simp add: abs_mult)
    show "k = 0 \<or> 2 ^ 52 * (2 ^ k * tiny) \<le> \<bar>of_int m * (2 ^ k * tiny)\<bar>"
    proof (cases "k = 0")
      case False
      with m2 have "2 ^ 52 \<le> \<bar>real_of_int m\<bar>" by simp
      then have "2 ^ 52 * (2 ^ k * tiny) \<le> \<bar>real_of_int m\<bar> * (2 ^ k * tiny)"
        by (intro mult_right_mono) simp_all
      then show ?thesis by (simp add: abs_mult)
    qed simp
  qed
  then show ?thesis using pos by (simp add: fl_def)
qed

lemma fl_fix_less:
  assumes "\<bar>m\<bar> < 2 ^ 53"
  shows "fl (of_int m * (2 ^ k * tiny)) = of_int m * (2 ^ k * tiny)"
  using assms
proof (induction k arbitrary: m)
  case 0
  then show ?case by (intro fl_fix_normal) simp_all
next
  case (Suc k)
  show ?case
  proof (cases "2 ^ 52 \<le> \<bar>m\<bar>")
    case True
    with Suc.prems show ?thesis by (intro fl_fix_normal) simp_all
  next
    case False
    then have "\<bar>2 * m\<bar> < 2 ^ 53" by simp
    from Suc.IH [OF this] show ?thesis by (simp add: mult.assoc mult.left_commute)
  qed
qed

lemma fl_fixI:
  assumes "\<bar>m\<bar> \<le> 2 ^ 53"
  shows "fl (of_int m * (2 ^ k * tiny)) = of_int m * (2 ^ k * tiny)"
proof (cases "\<bar>m\<bar> = 2 ^ 53")
  case True
  then have c: "m = 2 ^ 53 \<or> m = - (2 ^ 53)" by linarith
  then have h: "\<bar>m div 2\<bar> = 2 ^ 52" by auto
  from c have "m = 2 * (m div 2)" by auto
  then have "real_of_int m = 2 * real_of_int (m div 2)"
    by (metis of_int_mult of_int_numeral)
  then have e: "of_int m * (2 ^ k * tiny) = of_int (m div 2) * (2 ^ Suc k * tiny)"
    by simp
  have "fl (of_int (m div 2) * (2 ^ Suc k * tiny)) = of_int (m div 2) * (2 ^ Suc k * tiny)"
    using h by (intro fl_fix_normal) simp_all
  then show ?thesis by (simp only: e)
next
  case False
  with assms have "\<bar>m\<bar> < 2 ^ 53" by simp
  then show ?thesis by (rule fl_fix_less)
qed

lemma fl_idem [simp]: "fl (fl x) = fl x"
  using fl_fixI [OF rne_quotient_le [of x], of "binade x"]
  by (simp add: fl_def [of x] quantum_def)

text \<open>Evaluation at a number below \<open>2 ^ 53\<close>, given its exponent.\<close>

lemma tiny_split: "j \<le> 1074 \<Longrightarrow> 2 ^ (1074 - j) * tiny = 1 / 2 ^ j"
proof -
  assume "j \<le> 1074"
  then have "1074 = (1074 - j) + j" by simp
  then have "(2::real) ^ 1074 = 2 ^ (1074 - j) * 2 ^ j"
    by (metis power_add)
  then show ?thesis
    unfolding tiny_def by (simp only: times_divide_eq_right mult_1_right) (simp add: field_simps)
qed

lemma fl_eval:
  assumes "j \<le> 1074" and "\<bar>x\<bar> * 2 ^ j < 2 ^ 53"
    and "j = 1074 \<or> 2 ^ 52 \<le> \<bar>x\<bar> * 2 ^ j"
  shows "fl x = of_int (rne (x * 2 ^ j)) / 2 ^ j"
proof -
  have q: "2 ^ (1074 - j) * tiny = 1 / 2 ^ j" (is "?q = _")
    using assms(1) by (rule tiny_split)
  have "quantum x = ?q"
  proof (rule quantum_eqI)
    show "\<bar>x\<bar> < 2 ^ 53 * ?q"
      using assms(2) unfolding q by (simp add: field_simps)
    show "1074 - j = 0 \<or> 2 ^ 52 * ?q \<le> \<bar>x\<bar>"
      using assms(1,3) unfolding q by (auto simp: field_simps)
  qed
  then show ?thesis
    unfolding fl_def q by simp
qed

subsection \<open>The operations at the numbers of the examples\<close>

text \<open>
  Each lemma evaluates one operation at binary64 numbers, written as fractions; the
  exponent of the result is given to \<open>fl_eval\<close>.
\<close>

lemma flop_1: "lit (1 / 10) = 3602879701896397 / 36028797018963968"
  unfolding lit_def by (subst fl_eval [of 56]) (simp_all add: rne_def)

lemma flop_2: "lit (17 / 20) = 7656119366529843 / 9007199254740992"
  unfolding lit_def by (subst fl_eval [of 53]) (simp_all add: rne_def)

lemma flop_3: "lit (3 / 10) = 5404319552844595 / 18014398509481984"
  unfolding lit_def by (subst fl_eval [of 54]) (simp_all add: rne_def)

lemma flop_4: "lit (1 / 2) = 1 / 2"
  unfolding lit_def by (subst fl_eval [of 53]) (simp_all add: rne_def)

lemma flop_5: "lit (7 / 10) = 3152519739159347 / 4503599627370496"
  unfolding lit_def by (subst fl_eval [of 53]) (simp_all add: rne_def)

lemma flop_6: "dmul (3602879701896397 / 36028797018963968) 100 = 10"
  unfolding dmul_def by (subst fl_eval [of 49]) (simp_all add: rne_def)

lemma flop_7: "dmul (7656119366529843 / 9007199254740992) 100 = 85"
  unfolding dmul_def by (subst fl_eval [of 46]) (simp_all add: rne_def)

lemma flop_8: "ddiv 500 1000 = 1 / 2"
  unfolding ddiv_def by (subst fl_eval [of 53]) (simp_all add: rne_def)

lemma flop_9: "lit (7 / 20) = 3152519739159347 / 9007199254740992"
  unfolding lit_def by (subst fl_eval [of 54]) (simp_all add: rne_def)

lemma flop_10: "dmul (1 / 2) (3152519739159347 / 9007199254740992) = 3152519739159347 / 18014398509481984"
  unfolding dmul_def by (subst fl_eval [of 55]) (simp_all add: rne_def)

lemma flop_11: "dadd (5404319552844595 / 18014398509481984) (3152519739159347 / 18014398509481984) = 4278419646001971 / 9007199254740992"
  unfolding dadd_def by (subst fl_eval [of 54]) (simp_all add: rne_def)

lemma flop_12: "lit (3 / 20) = 5404319552844595 / 36028797018963968"
  unfolding lit_def by (subst fl_eval [of 55]) (simp_all add: rne_def)

lemma flop_13: "dmul (3152519739159347 / 4503599627370496) (5404319552844595 / 36028797018963968) = 7566047373982433 / 72057594037927936"
  unfolding dmul_def by (subst fl_eval [of 56]) (simp_all add: rne_def)

lemma flop_14: "dadd (4278419646001971 / 9007199254740992) (7566047373982433 / 72057594037927936) = 5224175567749775 / 9007199254740992"
  unfolding dadd_def by (subst fl_eval [of 53]) (simp_all add: rne_def)

lemma flop_15: "ddiv 10 35 = 2573485501354569 / 9007199254740992"
  unfolding ddiv_def by (subst fl_eval [of 54]) (simp_all add: rne_def)

lemma flop_16: "lit (2 / 25) = 5764607523034235 / 72057594037927936"
  unfolding lit_def by (subst fl_eval [of 56]) (simp_all add: rne_def)

lemma flop_17: "dmul (2573485501354569 / 9007199254740992) (5764607523034235 / 72057594037927936) = 6588122883467697 / 288230376151711744"
  unfolding dmul_def by (subst fl_eval [of 58]) (simp_all add: rne_def)

lemma flop_18: "dsub (5224175567749775 / 9007199254740992) (6588122883467697 / 288230376151711744) = 5018296727641409 / 9007199254740992"
  unfolding dsub_def by (subst fl_eval [of 53]) (simp_all add: rne_def)

lemma flop_19: "ddiv 50 100 = 1 / 2"
  unfolding ddiv_def by (subst fl_eval [of 53]) (simp_all add: rne_def)

lemma flop_20: "lit (1 / 50) = 5764607523034235 / 288230376151711744"
  unfolding lit_def by (subst fl_eval [of 58]) (simp_all add: rne_def)

lemma flop_21: "dmul (1 / 2) (5764607523034235 / 288230376151711744) = 5764607523034235 / 576460752303423488"
  unfolding dmul_def by (subst fl_eval [of 59]) (simp_all add: rne_def)

lemma flop_22: "dsub (5018296727641409 / 9007199254740992) (5764607523034235 / 576460752303423488) = 4928224735093999 / 9007199254740992"
  unfolding dsub_def by (subst fl_eval [of 53]) (simp_all add: rne_def)

lemma flop_23: "ddiv 30 100 = 5404319552844595 / 18014398509481984"
  unfolding ddiv_def by (subst fl_eval [of 54]) (simp_all add: rne_def)

lemma flop_24: "dmul (5404319552844595 / 18014398509481984) (5764607523034235 / 288230376151711744) = 3458764513820541 / 576460752303423488"
  unfolding dmul_def by (subst fl_eval [of 60]) (simp_all add: rne_def)

lemma flop_25: "dsub (4928224735093999 / 9007199254740992) (3458764513820541 / 576460752303423488) = 4874181539565553 / 9007199254740992"
  unfolding dsub_def by (subst fl_eval [of 53]) (simp_all add: rne_def)

lemma flop_26: "dmul (4874181539565553 / 9007199254740992) 100 = 7615908655571177 / 140737488355328"
  unfolding dmul_def by (subst fl_eval [of 47]) (simp_all add: rne_def)

lemma flop_27: "dmul (7656119366529843 / 9007199254740992) (5404319552844595 / 36028797018963968) = 2296835809958953 / 18014398509481984"
  unfolding dmul_def by (subst fl_eval [of 55]) (simp_all add: rne_def)

lemma flop_28: "dadd (4278419646001971 / 9007199254740992) (2296835809958953 / 18014398509481984) = 678354693872681 / 1125899906842624"
  unfolding dadd_def by (subst fl_eval [of 53]) (simp_all add: rne_def)

lemma flop_29: "ddiv 0 35 = 0"
  by (simp add: ddiv_def)

lemma flop_30: "dmul 0 (5764607523034235 / 72057594037927936) = 0"
  by (simp add: dmul_def)

lemma flop_31: "dsub (678354693872681 / 1125899906842624) 0 = 678354693872681 / 1125899906842624"
  unfolding dsub_def by (subst fl_eval [of 53]) (simp_all add: rne_def)

lemma flop_32: "ddiv 10 100 = 3602879701896397 / 36028797018963968"
  unfolding ddiv_def by (subst fl_eval [of 56]) (simp_all add: rne_def)

lemma flop_33: "dmul (3602879701896397 / 36028797018963968) (5764607523034235 / 288230376151711744) = 1152921504606847 / 576460752303423488"
  unfolding dmul_def by (subst fl_eval [of 61]) (simp_all add: rne_def)

lemma flop_34: "dsub (678354693872681 / 1125899906842624) (1152921504606847 / 576460752303423488) = 2704411576235983 / 4503599627370496"
  unfolding dsub_def by (subst fl_eval [of 53]) (simp_all add: rne_def)

lemma flop_35: "ddiv 4 100 = 5764607523034235 / 144115188075855872"
  unfolding ddiv_def by (subst fl_eval [of 57]) (simp_all add: rne_def)

lemma flop_36: "dmul (5764607523034235 / 144115188075855872) (5764607523034235 / 288230376151711744) = 7378697629483821 / 9223372036854775808"
  unfolding dmul_def by (subst fl_eval [of 63]) (simp_all add: rne_def)

lemma flop_37: "dsub (2704411576235983 / 4503599627370496) (7378697629483821 / 9223372036854775808) = 5401617393068173 / 9007199254740992"
  unfolding dsub_def by (subst fl_eval [of 53]) (simp_all add: rne_def)

lemma flop_38: "dmul (5401617393068173 / 9007199254740992) 100 = 2110006794167255 / 35184372088832"
  unfolding dmul_def by (subst fl_eval [of 47]) (simp_all add: rne_def)

lemma flop_39: "dmul (2110006794167255 / 35184372088832) 10 = 2637508492709069 / 4398046511104"
  unfolding dmul_def by (subst fl_eval [of 43]) (simp_all add: rne_def)

lemma flop_40: "ddiv 600 10 = 60"
  unfolding ddiv_def by (subst fl_eval [of 47]) (simp_all add: rne_def)

lemma flop_41: "dmul 400 1500 = 600000"
  unfolding dmul_def by (subst fl_eval [of 33]) (simp_all add: rne_def)

lemma flop_42: "dmul 600000 (5401617393068173 / 9007199254740992) = 359820"
  unfolding dmul_def by (subst fl_eval [of 34]) (simp_all add: rne_def)

lemma flop_43: "ddiv 359820 1000 = 6330020382501765 / 17592186044416"
  unfolding ddiv_def by (subst fl_eval [of 44]) (simp_all add: rne_def)

lemma flop_44: "dsub (2110006794167255 / 35184372088832) (2110006794167255 / 35184372088832) = 0"
  by (simp add: dsub_def)

lemma flop_45: "ddiv 0 (2110006794167255 / 35184372088832) = 0"
  by (simp add: ddiv_def)

lemma flop_46: "dmul 0 100 = 0"
  by (simp add: dmul_def)

lemma flop_47: "dmul 0 10 = 0"
  by (simp add: dmul_def)

lemma flop_48: "ddiv 0 10 = 0"
  by (simp add: ddiv_def)

lemma flop_49: "dmul (5401617393068173 / 9007199254740992) 1000 = 2637508492709069 / 4398046511104"
  unfolding dmul_def by (subst fl_eval [of 43]) (simp_all add: rne_def)

lemma flop_50: "lit (2 / 5) = 3602879701896397 / 9007199254740992"
  unfolding lit_def by (subst fl_eval [of 54]) (simp_all add: rne_def)

lemma flop_51: "lit (3 / 200) = 1080863910568919 / 72057594037927936"
  unfolding lit_def by (subst fl_eval [of 59]) (simp_all add: rne_def)

lemma flop_52: "dmul (1080863910568919 / 72057594037927936) 30 = 2026619832316723 / 4503599627370496"
  unfolding dmul_def by (subst fl_eval [of 54]) (simp_all add: rne_def)

lemma flop_53: "dsub (7656119366529843 / 9007199254740992) (2026619832316723 / 4503599627370496) = 3602879701896397 / 9007199254740992"
  unfolding dsub_def by (subst fl_eval [of 54]) (simp_all add: rne_def)

lemma flop_54: "dmul (3602879701896397 / 9007199254740992) (5404319552844595 / 36028797018963968) = 1080863910568919 / 18014398509481984"
  unfolding dmul_def by (subst fl_eval [of 57]) (simp_all add: rne_def)

lemma flop_55: "dadd (4278419646001971 / 9007199254740992) (1080863910568919 / 18014398509481984) = 2409425800643215 / 4503599627370496"
  unfolding dadd_def by (subst fl_eval [of 53]) (simp_all add: rne_def)

lemma flop_56: "ddiv 30 35 = 7720456504063707 / 9007199254740992"
  unfolding ddiv_def by (subst fl_eval [of 53]) (simp_all add: rne_def)

lemma flop_57: "dmul (7720456504063707 / 9007199254740992) (5764607523034235 / 72057594037927936) = 4941092162600773 / 72057594037927936"
  unfolding dmul_def by (subst fl_eval [of 56]) (simp_all add: rne_def)

lemma flop_58: "dsub (2409425800643215 / 4503599627370496) (4941092162600773 / 72057594037927936) = 8402430161922667 / 18014398509481984"
  unfolding dsub_def by (subst fl_eval [of 54]) (simp_all add: rne_def)

lemma flop_59: "dsub (8402430161922667 / 18014398509481984) (1152921504606847 / 576460752303423488) = 8366401364903703 / 18014398509481984"
  unfolding dsub_def by (subst fl_eval [of 54]) (simp_all add: rne_def)

lemma flop_60: "dsub (8366401364903703 / 18014398509481984) (7378697629483821 / 9223372036854775808) = 8351989846096117 / 18014398509481984"
  unfolding dsub_def by (subst fl_eval [of 54]) (simp_all add: rne_def)

lemma flop_61: "dmul 0 30 = 0"
  by (simp add: dmul_def)

lemma flop_62: "dadd (8351989846096117 / 18014398509481984) 0 = 8351989846096117 / 18014398509481984"
  unfolding dadd_def by (subst fl_eval [of 54]) (simp_all add: rne_def)

lemma flop_63: "dmul (8351989846096117 / 18014398509481984) 1000 = 8156240084078239 / 17592186044416"
  unfolding dmul_def by (subst fl_eval [of 44]) (simp_all add: rne_def)

lemma flop_64: "ddiv 464 10 = 6530219459687219 / 140737488355328"
  unfolding ddiv_def by (subst fl_eval [of 47]) (simp_all add: rne_def)

lemma flop_65: "lit (232 / 5) = 6530219459687219 / 140737488355328"
  unfolding lit_def by (subst fl_eval [of 47]) (simp_all add: rne_def)

lemma flop_66: "dmul 10 10 = 100"
  unfolding dmul_def by (subst fl_eval [of 46]) (simp_all add: rne_def)

lemma flop_67: "ddiv 100 10 = 10"
  unfolding ddiv_def by (subst fl_eval [of 49]) (simp_all add: rne_def)

lemma flop_68: "lit (33 / 50) = 5944751508129055 / 9007199254740992"
  unfolding lit_def by (subst fl_eval [of 53]) (simp_all add: rne_def)

lemma flop_69: "ddiv 380 1000 = 3422735716801577 / 9007199254740992"
  unfolding ddiv_def by (subst fl_eval [of 54]) (simp_all add: rne_def)

lemma flop_70: "dmul (3422735716801577 / 9007199254740992) (3152519739159347 / 9007199254740992) = 4791830003522207 / 36028797018963968"
  unfolding dmul_def by (subst fl_eval [of 55]) (simp_all add: rne_def)

lemma flop_71: "dadd (5404319552844595 / 18014398509481984) (4791830003522207 / 36028797018963968) = 3900117277302849 / 9007199254740992"
  unfolding dadd_def by (subst fl_eval [of 54]) (simp_all add: rne_def)

lemma flop_72: "dmul (5944751508129055 / 9007199254740992) (5404319552844595 / 36028797018963968) = 3566850904877433 / 36028797018963968"
  unfolding dmul_def by (subst fl_eval [of 56]) (simp_all add: rne_def)

lemma flop_73: "dadd (3900117277302849 / 9007199254740992) (3566850904877433 / 36028797018963968) = 4791830003522207 / 9007199254740992"
  unfolding dadd_def by (subst fl_eval [of 53]) (simp_all add: rne_def)

lemma flop_74: "ddiv 7 35 = 3602879701896397 / 18014398509481984"
  unfolding ddiv_def by (subst fl_eval [of 55]) (simp_all add: rne_def)

lemma flop_75: "dmul (3602879701896397 / 18014398509481984) (5764607523034235 / 72057594037927936) = 1152921504606847 / 72057594037927936"
  unfolding dmul_def by (subst fl_eval [of 58]) (simp_all add: rne_def)

lemma flop_76: "dsub (4791830003522207 / 9007199254740992) (1152921504606847 / 72057594037927936) = 4647714815446351 / 9007199254740992"
  unfolding dsub_def by (subst fl_eval [of 53]) (simp_all add: rne_def)

lemma flop_77: "dsub (4647714815446351 / 9007199254740992) (5764607523034235 / 576460752303423488) = 4557642822898941 / 9007199254740992"
  unfolding dsub_def by (subst fl_eval [of 53]) (simp_all add: rne_def)

lemma flop_78: "dsub (4557642822898941 / 9007199254740992) (3458764513820541 / 576460752303423488) = 4503599627370495 / 9007199254740992"
  unfolding dsub_def by (subst fl_eval [of 54]) (simp_all add: rne_def)

lemma flop_79: "ddiv 100 1000 = 3602879701896397 / 36028797018963968"
  unfolding ddiv_def by (subst fl_eval [of 56]) (simp_all add: rne_def)

lemma flop_80: "dmul (3602879701896397 / 36028797018963968) (3152519739159347 / 9007199254740992) = 5044031582654955 / 144115188075855872"
  unfolding dmul_def by (subst fl_eval [of 57]) (simp_all add: rne_def)

lemma flop_81: "dadd (5404319552844595 / 18014398509481984) (5044031582654955 / 144115188075855872) = 377176468792279 / 1125899906842624"
  unfolding dadd_def by (subst fl_eval [of 54]) (simp_all add: rne_def)

lemma flop_82: "dmul (5404319552844595 / 18014398509481984) (5404319552844595 / 36028797018963968) = 3242591731706757 / 72057594037927936"
  unfolding dmul_def by (subst fl_eval [of 57]) (simp_all add: rne_def)

lemma flop_83: "dadd (377176468792279 / 1125899906842624) (3242591731706757 / 72057594037927936) = 6845471433603153 / 18014398509481984"
  unfolding dadd_def by (subst fl_eval [of 54]) (simp_all add: rne_def)

lemma flop_84: "ddiv 28 35 = 3602879701896397 / 4503599627370496"
  unfolding ddiv_def by (subst fl_eval [of 53]) (simp_all add: rne_def)

lemma flop_85: "dmul (3602879701896397 / 4503599627370496) (5764607523034235 / 72057594037927936) = 1152921504606847 / 18014398509481984"
  unfolding dmul_def by (subst fl_eval [of 56]) (simp_all add: rne_def)

lemma flop_86: "dsub (6845471433603153 / 18014398509481984) (1152921504606847 / 18014398509481984) = 2846274964498153 / 9007199254740992"
  unfolding dsub_def by (subst fl_eval [of 54]) (simp_all add: rne_def)

lemma flop_87: "dsub (2846274964498153 / 9007199254740992) (5764607523034235 / 576460752303423488) = 2756202971950743 / 9007199254740992"
  unfolding dsub_def by (subst fl_eval [of 54]) (simp_all add: rne_def)

lemma flop_88: "dsub (2756202971950743 / 9007199254740992) (3458764513820541 / 576460752303423488) = 2702159776422297 / 9007199254740992"
  unfolding dsub_def by (subst fl_eval [of 54]) (simp_all add: rne_def)

lemma flop_89: "lit (71 / 100) = 799388933858263 / 1125899906842624"
  unfolding lit_def by (subst fl_eval [of 53]) (simp_all add: rne_def)

lemma flop_90: "ddiv 170 1000 = 6124895493223875 / 36028797018963968"
  unfolding ddiv_def by (subst fl_eval [of 55]) (simp_all add: rne_def)

lemma flop_91: "dmul (6124895493223875 / 36028797018963968) (3152519739159347 / 9007199254740992) = 535928355657089 / 9007199254740992"
  unfolding dmul_def by (subst fl_eval [of 57]) (simp_all add: rne_def)

lemma flop_92: "dadd (5404319552844595 / 18014398509481984) (535928355657089 / 9007199254740992) = 6476176264158773 / 18014398509481984"
  unfolding dadd_def by (subst fl_eval [of 54]) (simp_all add: rne_def)

lemma flop_93: "dmul (799388933858263 / 1125899906842624) (5404319552844595 / 36028797018963968) = 7674133765039325 / 72057594037927936"
  unfolding dmul_def by (subst fl_eval [of 56]) (simp_all add: rne_def)

lemma flop_94: "dadd (6476176264158773 / 18014398509481984) (7674133765039325 / 72057594037927936) = 2098677426354651 / 4503599627370496"
  unfolding dadd_def by (subst fl_eval [of 54]) (simp_all add: rne_def)

lemma flop_95: "dsub (2098677426354651 / 4503599627370496) 0 = 2098677426354651 / 4503599627370496"
  unfolding dsub_def by (subst fl_eval [of 54]) (simp_all add: rne_def)

lemma flop_96: "dsub (2098677426354651 / 4503599627370496) (5764607523034235 / 576460752303423488) = 1026820715040473 / 2251799813685248"
  unfolding dsub_def by (subst fl_eval [of 54]) (simp_all add: rne_def)

lemma flop_97: "dsub (1026820715040473 / 2251799813685248) (3458764513820541 / 576460752303423488) = 2026619832316723 / 4503599627370496"
  unfolding dsub_def by (subst fl_eval [of 54]) (simp_all add: rne_def)

lemma flop_98: "dmul (2026619832316723 / 4503599627370496) 100 = 6333186975989759 / 140737488355328"
  unfolding dmul_def by (subst fl_eval [of 47]) (simp_all add: rne_def)

lemma flop_99: "dmul (6333186975989759 / 140737488355328) 10 = 7916483719987199 / 17592186044416"
  unfolding dmul_def by (subst fl_eval [of 44]) (simp_all add: rne_def)

lemma flop_100: "ddiv 450 10 = 45"
  unfolding ddiv_def by (subst fl_eval [of 47]) (simp_all add: rne_def)

lemma flop_101: "dmul 600000 (2026619832316723 / 4503599627370496) = 270000"
  unfolding dmul_def by (subst fl_eval [of 34]) (simp_all add: rne_def)

lemma flop_102: "ddiv 270000 1000 = 270"
  unfolding ddiv_def by (subst fl_eval [of 44]) (simp_all add: rne_def)

lemma flop_103: "dsub (6333186975989759 / 140737488355328) (6333186975989759 / 140737488355328) = 0"
  by (simp add: dsub_def)

lemma flop_104: "ddiv 0 (6333186975989759 / 140737488355328) = 0"
  by (simp add: ddiv_def)

lemma flop_105: "lit (19 / 50) = 3422735716801577 / 9007199254740992"
  unfolding lit_def by (subst fl_eval [of 54]) (simp_all add: rne_def)

lemma flop_106: "ddiv 740 1000 = 3332663724254167 / 4503599627370496"
  unfolding ddiv_def by (subst fl_eval [of 53]) (simp_all add: rne_def)

lemma flop_107: "dmul (3332663724254167 / 4503599627370496) (3152519739159347 / 9007199254740992) = 2332864606977917 / 9007199254740992"
  unfolding dmul_def by (subst fl_eval [of 54]) (simp_all add: rne_def)

lemma flop_108: "dadd (5404319552844595 / 18014398509481984) (2332864606977917 / 9007199254740992) = 2517512191700107 / 4503599627370496"
  unfolding dadd_def by (subst fl_eval [of 53]) (simp_all add: rne_def)

lemma flop_109: "dmul (3422735716801577 / 9007199254740992) (5404319552844595 / 36028797018963968) = 1026820715040473 / 18014398509481984"
  unfolding dmul_def by (subst fl_eval [of 57]) (simp_all add: rne_def)

lemma flop_110: "dadd (2517512191700107 / 4503599627370496) (1026820715040473 / 18014398509481984) = 2774217370460225 / 4503599627370496"
  unfolding dadd_def by (subst fl_eval [of 53]) (simp_all add: rne_def)

lemma flop_111: "dsub (2774217370460225 / 4503599627370496) 0 = 2774217370460225 / 4503599627370496"
  unfolding dsub_def by (subst fl_eval [of 53]) (simp_all add: rne_def)

lemma flop_112: "dsub (2774217370460225 / 4503599627370496) (5764607523034235 / 576460752303423488) = 341147671773315 / 562949953421312"
  unfolding dsub_def by (subst fl_eval [of 53]) (simp_all add: rne_def)

lemma flop_113: "dsub (341147671773315 / 562949953421312) (3458764513820541 / 576460752303423488) = 2702159776422297 / 4503599627370496"
  unfolding dsub_def by (subst fl_eval [of 53]) (simp_all add: rne_def)

lemma flop_114: "dmul (2702159776422297 / 4503599627370496) 100 = 4222124650659839 / 70368744177664"
  unfolding dmul_def by (subst fl_eval [of 47]) (simp_all add: rne_def)

lemma flop_115: "dmul (4222124650659839 / 70368744177664) 10 = 5277655813324799 / 8796093022208"
  unfolding dmul_def by (subst fl_eval [of 43]) (simp_all add: rne_def)

lemma flop_116: "dmul 600000 (2702159776422297 / 4503599627370496) = 6184752906239999 / 17179869184"
  unfolding dmul_def by (subst fl_eval [of 34]) (simp_all add: rne_def)

lemma flop_117: "ddiv (6184752906239999 / 17179869184) 1000 = 6333186975989759 / 17592186044416"
  unfolding ddiv_def by (subst fl_eval [of 44]) (simp_all add: rne_def)

lemma flop_118: "dsub (4222124650659839 / 70368744177664) (4222124650659839 / 70368744177664) = 0"
  by (simp add: dsub_def)

lemma flop_119: "ddiv 0 (4222124650659839 / 70368744177664) = 0"
  by (simp add: ddiv_def)

lemmas flops =
  flop_1 flop_2 flop_3 flop_4 flop_5 flop_6 flop_7 flop_8 flop_9 flop_10 flop_11
  flop_12 flop_13 flop_14 flop_15 flop_16 flop_17 flop_18 flop_19 flop_20 flop_21
  flop_22 flop_23 flop_24 flop_25 flop_26 flop_27 flop_28 flop_29 flop_30 flop_31
  flop_32 flop_33 flop_34 flop_35 flop_36 flop_37 flop_38 flop_39 flop_40 flop_41
  flop_42 flop_43 flop_44 flop_45 flop_46 flop_47 flop_48 flop_49 flop_50 flop_51
  flop_52 flop_53 flop_54 flop_55 flop_56 flop_57 flop_58 flop_59 flop_60 flop_61
  flop_62 flop_63 flop_64 flop_65 flop_66 flop_67 flop_68 flop_69 flop_70 flop_71
  flop_72 flop_73 flop_74 flop_75 flop_76 flop_77 flop_78 flop_79 flop_80 flop_81
  flop_82 flop_83 flop_84 flop_85 flop_86 flop_87 flop_88 flop_89 flop_90 flop_91
  flop_92 flop_93 flop_94 flop_95 flop_96 flop_97 flop_98 flop_99 flop_100 flop_101
  flop_102 flop_103 flop_104 flop_105 flop_106 flop_107 flop_108 flop_109 flop_110
  flop_111 flop_112 flop_113 flop_114 flop_115 flop_116 flop_117 flop_118 flop_119

subsection \<open>The four operations\<close>

lemma lit_nonneg [simp]: "0 \<le> x \<Longrightarrow> 0 \<le> lit x"
  by (simp add: lit_def fl_nonneg)

lemma lit_mono [simp]: "x \<le> y \<Longrightarrow> lit x \<le> lit y"
  by (simp add: lit_def fl_mono)

lemma dadd_mono: "a \<le> b \<Longrightarrow> c \<le> d \<Longrightarrow> dadd a c \<le> dadd b d"
  by (simp add: dadd_def fl_mono)

lemma dsub_mono: "a \<le> b \<Longrightarrow> d \<le> c \<Longrightarrow> dsub a c \<le> dsub b d"
  by (simp add: dsub_def fl_mono)

lemma dmul_mono: "a \<le> b \<Longrightarrow> 0 \<le> c \<Longrightarrow> dmul a c \<le> dmul b c"
  by (simp add: dmul_def fl_mono mult_right_mono)

lemma ddiv_mono: "a \<le> b \<Longrightarrow> 0 \<le> c \<Longrightarrow> ddiv a c \<le> ddiv b c"
  by (simp add: ddiv_def fl_mono divide_right_mono)

lemma dsub_zero: "dsub (dsub a b) 0 = dsub a b"
  by (simp add: dsub_def)

lemma math_round_mono: "x \<le> y \<Longrightarrow> math_round x \<le> math_round y"
  by (simp add: math_round_def floor_mono)

lemma max_min_bounds:
  fixes lo hi x :: real
  assumes "lo \<le> hi"
  shows "lo \<le> max lo (min hi x)" and "max lo (min hi x) \<le> hi"
  using assms by (simp_all add: max_def min_def)

lemma max_min_mono:
  fixes lo hi x y :: real
  assumes "x \<le> y"
  shows "max lo (min hi x) \<le> max lo (min hi y)"
  using assms by (simp add: max_def min_def)

section \<open>Properties of the estimator\<close>

lemma predict_efficiency:
  "efficiency (predict i) =
     estimate (irradiance i) (soiling_ratio i) (panel_age i) (temperature i)
       (humidity i) (cloud_coverage i)"
  by (simp add: predict_def estimate_def Let_def dsub_zero)

lemma predict_fields:
  "efficiency_percent (predict i) = dmul (efficiency (predict i)) 100"
  "quality_label (predict i) = getQualityLabel (efficiency (predict i))"
  "confidence (predict i) = ''simulated''"
  by (simp_all add: predict_def Let_def)

lemma predict_bounds_lit:
  "lit 0.1 \<le> efficiency (predict i)" "efficiency (predict i) \<le> lit 0.85"
proof -
  have "lit 0.1 \<le> lit 0.85" by simp
  from max_min_bounds [OF this] show
    "lit 0.1 \<le> efficiency (predict i)" "efficiency (predict i) \<le> lit 0.85"
    unfolding predict_efficiency estimate_def by blast+
qed

lemma predict_bounds: "0.1 \<le> efficiency (predict i)" "efficiency (predict i) \<le> 0.85"
proof -
  have "(0.1::real) \<le> lit 0.1" by (simp add: flop_1)
  with predict_bounds_lit(1) [of i] show "0.1 \<le> efficiency (predict i)" by linarith
  have "lit 0.85 \<le> (0.85::real)" by (simp add: flop_2)
  with predict_bounds_lit(2) [of i] show "efficiency (predict i) \<le> 0.85" by linarith
qed

lemmas estimate_intros =
  order_refl max_min_mono dsub_mono dadd_mono dmul_mono ddiv_mono lit_nonneg

lemma estimate_mono_irradiance:
  "x \<le> y \<Longrightarrow> estimate x s a t h c \<le> estimate y s a t h c"
  unfolding estimate_def by (intro estimate_intros) simp_all

lemma estimate_antimono_age:
  "x \<le> y \<Longrightarrow> estimate i s y t h c \<le> estimate i s x t h c"
  unfolding estimate_def by (intro estimate_intros) simp_all

lemma estimate_mono_soiling:
  "x \<le> y \<Longrightarrow> estimate i x a t h c \<le> estimate i y a t h c"
  unfolding estimate_def by (intro estimate_intros) simp_all

lemma predict_mono_irradiance:
  "irradiance p \<le> x \<Longrightarrow>
     efficiency (predict p) \<le> efficiency (predict (p\<lparr>irradiance := x\<rparr>))"
  by (simp add: predict_efficiency estimate_mono_irradiance)

lemma predict_antimono_age:
  "panel_age p \<le> y \<Longrightarrow>
     efficiency (predict (p\<lparr>panel_age := y\<rparr>)) \<le> efficiency (predict p)"
  by (simp add: predict_efficiency estimate_antimono_age)

lemma predict_mono_soiling:
  "soiling_ratio p \<le> z \<Longrightarrow>
     efficiency (predict p) \<le> efficiency (predict (p\<lparr>soiling_ratio := z\<rparr>))"
  by (simp add: predict_efficiency estimate_mono_soiling)

text \<open>
  The formula of the specification subtracts a temperature term in every case; the
  program skips the update when the temperature is at most 25. The term is then 0,
  and subtracting 0 from a binary64 number gives it back.
\<close>

lemma predict_spec_efficiency: "efficiency (predict p) = spec_efficiency p"
proof (cases "temperature p > 25")
  case True
  then have "0 \<le> dsub (temperature p) 25"
    by (simp add: dsub_def fl_nonneg)
  then have "max 0 (dsub (temperature p) 25) = dsub (temperature p) 25" by simp
  with True show ?thesis
    by (simp add: predict_efficiency estimate_def spec_efficiency_def clamp_def)
next
  case False
  then have "dsub (temperature p) 25 \<le> 0"
    by (simp add: dsub_def fl_nonpos)
  then have "max 0 (dsub (temperature p) 25) = 0" by simp
  moreover have "dmul (ddiv 0 100) (lit 0.03) = 0"
    by (simp add: dmul_def ddiv_def)
  ultimately show ?thesis using False
    by (simp add: predict_efficiency estimate_def spec_efficiency_def clamp_def)
qed

lemma example_efficiency:
  "efficiency (predict example_vector) = 4874181539565553 / 9007199254740992"
  by (simp add: predict_def Let_def example_vector_def flops)

lemma example_percent:
  "efficiency_percent (predict example_vector) = 7615908655571177 / 140737488355328"
  by (simp add: predict_fields example_efficiency flops)

text \<open>
  Where the exact sum of the terms sits on a threshold, the rounding of the seven
  updates decides the label: these two sums are 0.5 and 0.3 in exact arithmetic, and
  the program's values are just below.
\<close>

lemma sample_half:
  "efficiency (predict (sample_vector 380 (lit 0.66) 7)) = 4503599627370495 / 2 ^ 53"
  "quality_label (predict (sample_vector 380 (lit 0.66) 7)) = Moderee"
  by (simp_all add: predict_def Let_def sample_vector_def getQualityLabel_def flops)

lemma sample_third:
  "efficiency (predict (sample_vector 100 (lit 0.3) 28)) = 2702159776422297 / 2 ^ 53"
  "quality_label (predict (sample_vector 100 (lit 0.3) 28)) = Faible"
  by (simp_all add: predict_def Let_def sample_vector_def getQualityLabel_def flops)

text \<open>
  \<^bold>\<open>C1.\<close> For every parameter vector the local estimator returns the efficiency of
  the specification's formula, computed in binary64 arithmetic and clamped to the
  interval from 0.10 to 0.85; the label is low below 0.30, moderate below 0.50, good
  below 0.70 and excellent otherwise, the thresholds being the binary64 numbers of
  these literals; the confidence is \<open>simulated\<close>. On the example vector the
  efficiency is the binary64 number 4874181539565553 / 2 ^ 53, which is 0.5411 to
  four decimals; its percentage is 54.1 to one decimal, and the label is good.
\<close>

theorem C1_local_estimator:
  "efficiency (predict p) = spec_efficiency p
   \<and> quality_label (predict p) = spec_label (efficiency (predict p))
   \<and> confidence (predict p) = ''simulated''
   \<and> efficiency (predict example_vector) = 4874181539565553 / 2 ^ 53
   \<and> math_round (efficiency (predict example_vector) * 10000) / 10000 = 0.5411
   \<and> math_round (efficiency_percent (predict example_vector) * 10) / 10 = 54.1
   \<and> quality_label (predict example_vector) = Bonne"
proof -
  have "math_round ((4874181539565553 / 9007199254740992) * 10000) = 5411"
    by (simp add: math_round_def)
  moreover have "math_round ((7615908655571177 / 140737488355328) * 10) = 541"
    by (simp add: math_round_def)
  moreover have "getQualityLabel (4874181539565553 / 9007199254740992) = Bonne"
    by (simp add: getQualityLabel_def flops)
  ultimately show ?thesis
    by (simp add: predict_spec_efficiency [symmetric] predict_fields(2,3)
        example_efficiency example_percent spec_label_def getQualityLabel_def)
qed

text \<open>
  \<^bold>\<open>C2.\<close> For every parameter vector the efficiency returned by the estimator lies in
  the closed interval from 0.10 to 0.85.
\<close>

theorem C2_efficiency_range:
  "0.10 \<le> efficiency (predict p) \<and> efficiency (predict p) \<le> 0.85"
  using predict_bounds [of p] by simp

text \<open>
  \<^bold>\<open>C3.\<close> With every other parameter held fixed, raising the irradiance never lowers
  the efficiency, raising the panel age never raises it, and raising the soiling ratio
  never lowers it.
\<close>

theorem C3_monotone:
  "(irradiance p \<le> x \<longrightarrow>
      efficiency (predict p) \<le> efficiency (predict (p\<lparr>irradiance := x\<rparr>)))
   \<and> (panel_age p \<le> y \<longrightarrow>
      efficiency (predict (p\<lparr>panel_age := y\<rparr>)) \<le> efficiency (predict p))
   \<and> (soiling_ratio p \<le> z \<longrightarrow>
      efficiency (predict p) \<le> efficiency (predict (p\<lparr>soiling_ratio := z\<rparr>)))"
  using predict_mono_irradiance [of p x] predict_antimono_age [of p y]
    predict_mono_soiling [of p z] by blast

theorem C3_monotone_witness:
  "irradiance example_vector \<le> 600
   \<and> efficiency (predict example_vector)
       \<le> efficiency (predict (example_vector\<lparr>irradiance := 600\<rparr>))
   \<and> panel_age example_vector \<le> 20
   \<and> efficiency (predict (example_vector\<lparr>panel_age := 20\<rparr>))
       \<le> efficiency (predict example_vector)
   \<and> soiling_ratio example_vector \<le> lit 0.9
   \<and> efficiency (predict example_vector)
       \<le> efficiency (predict (example_vector\<lparr>soiling_ratio := lit 0.9\<rparr>))"
proof -
  have h: "irradiance example_vector \<le> 600" "panel_age example_vector \<le> 20"
    "soiling_ratio example_vector \<le> lit 0.9"
    by (simp_all add: example_vector_def)
  with C3_monotone [of example_vector 600 20 "lit 0.9"] show ?thesis
    by blast
qed

text \<open>
  \<^bold>\<open>C10.\<close> Two parameter vectors that agree on irradiance, soiling ratio, panel age,
  temperature, humidity and cloud coverage get the same result from the local
  estimator, whatever their module temperature, wind speed, voltage, current, pressure
  and maintenance count.
\<close>

theorem C10_six_inputs_only:
  assumes "irradiance p = irradiance q" and "soiling_ratio p = soiling_ratio q"
    and "panel_age p = panel_age q" and "temperature p = temperature q"
    and "humidity p = humidity q" and "cloud_coverage p = cloud_coverage q"
  shows "predict p = predict q"
  using assms by (simp add: predict_def cong: if_cong)

theorem C10_six_inputs_only_witness:
  "predict (example_vector\<lparr>module_temperature := 0, wind_speed := 15, voltage := 48,
      current := 9, pressure := 900, maintenance_count := 0\<rparr>) = predict example_vector"
  by (rule C10_six_inputs_only) simp_all

section \<open>The estimator never overflows\<close>

lemma fl_int_pow2:
  assumes "\<bar>m\<bar> \<le> 2 ^ 53"
  shows "fl (of_int m * 2 ^ n) = of_int m * 2 ^ n"
proof -
  have "(2::real) ^ (n + 1074) * tiny = 2 ^ n"
    by (simp add: tiny_def power_add)
  with fl_fixI [OF assms, of "n + 1074"] show ?thesis by simp
qed

lemma fl_abs_le:
  assumes "\<bar>x\<bar> \<le> B" and "fl B = B"
  shows "\<bar>fl x\<bar> \<le> B"
proof -
  from assms(1) have "x \<le> B" "- B \<le> x" by simp_all
  from fl_mono [OF this(1)] fl_mono [OF this(2)] assms(2)
  show ?thesis by (simp add: fl_minus abs_le_iff)
qed

lemma top_quantum_large: "100 \<le> top_quantum"
  by (simp add: top_quantum_def)

lemma top_quantum_tiny: "2 ^ 2045 * tiny = top_quantum"
proof -
  have "(2::real) ^ (971 + 1074) * tiny = 2 ^ 971"
    by (simp only: power_add tiny_def) simp
  then show ?thesis by (simp add: top_quantum_def)
qed

lemma fl_top_multiple:
  "\<bar>m\<bar> \<le> 2 ^ 53 \<Longrightarrow> fl (of_int m * top_quantum) = of_int m * top_quantum"
  unfolding top_quantum_def by (rule fl_int_pow2)

lemma fl_max_double: "fl max_double = max_double"
  using fl_top_multiple [of "2 ^ 53 - 1"] by (simp add: max_double_def)

text \<open>The bounds below are multiples of \<open>2 ^ 1013\<close>, which is \<open>2 ^ 42\<close> quanta.\<close>

lemma fl_unit_multiple:
  assumes "\<bar>m\<bar> \<le> 2048"
  shows "fl (of_int m * (2 ^ 42 * top_quantum)) = of_int m * (2 ^ 42 * top_quantum)"
proof -
  from assms have "\<bar>m * 2 ^ 42\<bar> \<le> 2 ^ 53" by (simp add: abs_mult)
  from fl_top_multiple [OF this] show ?thesis by (simp add: mult.assoc)
qed

lemma ddiv_bound:
  assumes "\<bar>x\<bar> \<le> B * c" and "0 < c" and "fl B = B"
  shows "\<bar>ddiv x c\<bar> \<le> B"
proof -
  have "\<bar>x / c\<bar> \<le> B" using assms(1,2) by (simp add: pos_divide_le_eq)
  then show ?thesis unfolding ddiv_def using assms(3) by (rule fl_abs_le)
qed

lemma dmul_bound:
  assumes "\<bar>x\<bar> \<le> B * K" and "0 \<le> c" and "c * K \<le> 1" and "0 \<le> B" and "fl B = B"
  shows "\<bar>dmul x c\<bar> \<le> B"
proof -
  have "\<bar>x * c\<bar> = \<bar>x\<bar> * c" using assms(2) by (simp add: abs_mult)
  also have "\<dots> \<le> B * K * c" using assms(1,2) by (intro mult_right_mono)
  also have "\<dots> = B * (c * K)" by simp
  also have "\<dots> \<le> B * 1" using assms(3,4) by (intro mult_left_mono)
  finally have "\<bar>x * c\<bar> \<le> B" by simp
  then show ?thesis unfolding dmul_def using assms(5) by (rule fl_abs_le)
qed

lemma dadd_bound:
  assumes "\<bar>x\<bar> \<le> bx" and "\<bar>y\<bar> \<le> by'" and "bx + by' \<le> B" and "fl B = B"
  shows "\<bar>dadd x y\<bar> \<le> B"
proof -
  have "\<bar>x + y\<bar> \<le> B" using assms(1-3) by linarith
  then show ?thesis unfolding dadd_def using assms(4) by (rule fl_abs_le)
qed

lemma dsub_bound:
  assumes "\<bar>x\<bar> \<le> bx" and "\<bar>y\<bar> \<le> by'" and "bx + by' \<le> B" and "fl B = B"
  shows "\<bar>dsub x y\<bar> \<le> B"
proof -
  have "\<bar>x - y\<bar> \<le> B" using assms(1-3) by linarith
  then show ?thesis unfolding dsub_def using assms(4) by (rule fl_abs_le)
qed

lemma fl_inv_pow2: "k \<le> 1074 \<Longrightarrow> fl (1 / 2 ^ k) = 1 / 2 ^ k"
  using fl_fixI [of 1 "1074 - k"] by (simp add: tiny_split)

lemma lit_bound:
  assumes "x * 2 ^ k \<le> 1" and "k \<le> 1074"
  shows "lit x * 2 ^ k \<le> 1"
proof -
  have "x \<le> 1 / 2 ^ k" using assms(1) by (simp add: pos_le_divide_eq)
  then have "lit x \<le> fl (1 / 2 ^ k)" unfolding lit_def by (rule fl_mono)
  then have "lit x \<le> 1 / 2 ^ k" using assms(2) by (simp add: fl_inv_pow2)
  then show "lit x * 2 ^ k \<le> 1" by (simp add: pos_le_divide_eq)
qed

text \<open>
  A number that exceeds the largest binary64 number by at most 25 rounds to it.
\<close>

lemma fl_near_max_nonneg:
  assumes "0 \<le> x" and "x \<le> max_double + 25"
  shows "fl x \<le> max_double"
proof (cases "x \<le> max_double")
  case True
  from fl_mono [OF this] show ?thesis by (simp add: fl_max_double)
next
  case False
  then have lo: "max_double < x" by simp
  note Q = top_quantum_large
  have q: "quantum x = top_quantum"
    unfolding top_quantum_tiny [symmetric]
  proof (rule quantum_eqI)
    show "\<bar>x\<bar> < 2 ^ 53 * (2 ^ 2045 * tiny)"
      unfolding top_quantum_tiny using assms Q by (simp add: max_double_def algebra_simps)
    show "2045 = 0 \<or> 2 ^ 52 * (2 ^ 2045 * tiny) \<le> \<bar>x\<bar>"
      unfolding top_quantum_tiny using lo Q by (simp add: max_double_def algebra_simps)
  qed
  have "x \<le> ((2 ^ 53 - 1) + 1 / 4) * top_quantum"
    using assms(2) Q by (simp add: max_double_def algebra_simps)
  then have "x / top_quantum \<le> (2 ^ 53 - 1) + 1 / 4"
    using Q by (simp add: pos_divide_le_eq)
  from rne_mono [OF this] have "rne (x / top_quantum) \<le> 2 ^ 53 - 1"
    by (simp add: rne_def)
  then have "real_of_int (rne (x / top_quantum)) \<le> real_of_int (2 ^ 53 - 1)"
    by (simp only: of_int_le_iff)
  then have "real_of_int (rne (x / top_quantum)) * top_quantum \<le> (2 ^ 53 - 1) * top_quantum"
    using Q by (intro mult_right_mono) simp_all
  then show ?thesis
    by (simp only: fl_def q max_double_def)
qed

lemma fl_near_max:
  assumes "\<bar>x\<bar> \<le> max_double + 25"
  shows "\<bar>fl x\<bar> \<le> max_double"
proof (cases "0 \<le> x")
  case True
  with assms fl_near_max_nonneg [of x] fl_nonneg [of x] show ?thesis by simp
next
  case False
  with assms fl_near_max_nonneg [of "- x"] fl_nonpos [of x] show ?thesis
    by (simp add: fl_minus)
qed

text \<open>
  No operation of the estimator overflows: on parameters within the binary64 range,
  every result stays within it.
\<close>

lemma predict_no_overflow:
  assumes "\<bar>irradiance i\<bar> \<le> max_double" and "\<bar>soiling_ratio i\<bar> \<le> max_double"
    and "\<bar>panel_age i\<bar> \<le> max_double" and "\<bar>temperature i\<bar> \<le> max_double"
    and "\<bar>humidity i\<bar> \<le> max_double" and "\<bar>cloud_coverage i\<bar> \<le> max_double"
  shows "\<forall>v \<in> set (predict_results i). \<bar>v\<bar> \<le> max_double"
proof -
  define U where "U = 2 ^ 42 * top_quantum"
  have U: "100 \<le> U" using top_quantum_large by (simp add: U_def)
  have m: "max_double \<le> 2048 * U" "1024 * U \<le> max_double"
    using top_quantum_large by (simp_all add: U_def max_double_def algebra_simps)
  have fixU: "fl (of_int n * U) = of_int n * U" if "\<bar>n\<bar> \<le> 2048" for n
    unfolding U_def using that by (rule fl_unit_multiple)
  note f4 = fixU [of 4, simplified] and f2 = fixU [of 2, simplified]
    and f512 = fixU [of 512, simplified] and f516 = fixU [of 516, simplified]
    and f64 = fixU [of 64, simplified] and f8 = fixU [of 8, simplified]
    and f524 = fixU [of 524, simplified] and f32 = fixU [of 32, simplified]
    and f1 = fixU [of 1, simplified] and f525 = fixU [of 525, simplified]
    and f526 = fixU [of 526, simplified] and f527 = fixU [of 527, simplified]
  define a1 where "a1 = ddiv (irradiance i) 1000"
  define a2 where "a2 = dmul a1 (lit 0.35)"
  define e1 where "e1 = dadd (lit 0.3) a2"
  define b1 where "b1 = dmul (soiling_ratio i) (lit 0.15)"
  define e2 where "e2 = dadd e1 b1"
  define c1 where "c1 = ddiv (panel_age i) 35"
  define c2 where "c2 = dmul c1 (lit 0.08)"
  define e3 where "e3 = dsub e2 c2"
  define t1 where "t1 = dsub (temperature i) 25"
  define t2 where "t2 = ddiv t1 100"
  define t3 where "t3 = dmul t2 (lit 0.03)"
  define e4 where "e4 = (if temperature i > 25 then dsub e3 t3 else e3)"
  define h1 where "h1 = ddiv (humidity i) 100"
  define h2 where "h2 = dmul h1 (lit 0.02)"
  define e5 where "e5 = dsub e4 h2"
  define k1 where "k1 = ddiv (cloud_coverage i) 100"
  define k2 where "k2 = dmul k1 (lit 0.02)"
  define e6 where "e6 = dsub e5 k2"
  have a1: "\<bar>a1\<bar> \<le> 4 * U"
    unfolding a1_def using assms(1) m U by (intro ddiv_bound f4) simp_all
  have a2: "\<bar>a2\<bar> \<le> 2 * U"
    unfolding a2_def using a1 U lit_bound [of "0.35" 1]
    by (intro dmul_bound [where K = 2] f2) simp_all
  have l3: "\<bar>lit 0.3\<bar> \<le> 1"
    using lit_bound [of "0.3" 0] by simp
  have e1: "\<bar>e1\<bar> \<le> 4 * U"
    unfolding e1_def using l3 a2 by (rule dadd_bound) (use U f4 in simp_all)
  have b1: "\<bar>b1\<bar> \<le> 512 * U"
    unfolding b1_def using assms(2) m U lit_bound [of "0.15" 2]
    by (intro dmul_bound [where K = 4] f512) simp_all
  have e2: "\<bar>e2\<bar> \<le> 516 * U"
    unfolding e2_def using e1 b1 by (rule dadd_bound) (use U f516 in simp_all)
  have c1: "\<bar>c1\<bar> \<le> 64 * U"
    unfolding c1_def using assms(3) m U by (intro ddiv_bound f64) simp_all
  have c2: "\<bar>c2\<bar> \<le> 8 * U"
    unfolding c2_def using c1 U lit_bound [of "0.08" 3]
    by (intro dmul_bound [where K = 8] f8) simp_all
  have e3: "\<bar>e3\<bar> \<le> 524 * U"
    unfolding e3_def using e2 c2 by (rule dsub_bound) (use U f524 in simp_all)
  have t1: "\<bar>t1\<bar> \<le> max_double"
    unfolding t1_def dsub_def using assms(4) by (intro fl_near_max) simp
  have t2: "\<bar>t2\<bar> \<le> 32 * U"
    unfolding t2_def using t1 m U by (intro ddiv_bound f32) simp_all
  have t3: "\<bar>t3\<bar> \<le> 1 * U"
    unfolding t3_def using t2 U lit_bound [of "0.03" 5]
    by (intro dmul_bound [where K = 32]) (use f1 in simp_all)
  have "\<bar>dsub e3 t3\<bar> \<le> 525 * U"
    using e3 t3 by (rule dsub_bound) (use U f525 in simp_all)
  with e3 U have e4: "\<bar>e4\<bar> \<le> 525 * U"
    unfolding e4_def by simp
  have h1: "\<bar>h1\<bar> \<le> 32 * U"
    unfolding h1_def using assms(5) m U by (intro ddiv_bound f32) simp_all
  have h2: "\<bar>h2\<bar> \<le> 1 * U"
    unfolding h2_def using h1 U lit_bound [of "0.02" 5]
    by (intro dmul_bound [where K = 32]) (use f1 in simp_all)
  have e5: "\<bar>e5\<bar> \<le> 526 * U"
    unfolding e5_def using e4 h2 by (rule dsub_bound) (use U f526 in simp_all)
  have k1: "\<bar>k1\<bar> \<le> 32 * U"
    unfolding k1_def using assms(6) m U by (intro ddiv_bound f32) simp_all
  have k2: "\<bar>k2\<bar> \<le> 1 * U"
    unfolding k2_def using k1 U lit_bound [of "0.02" 5]
    by (intro dmul_bound [where K = 32]) (use f1 in simp_all)
  have e6: "\<bar>e6\<bar> \<le> 527 * U"
    unfolding e6_def using e5 k2 by (rule dsub_bound) (use U f527 in simp_all)
  have r: "predict_results i =
      [a1, a2, e1, b1, e2, c1, c2, e3, t1, t2, t3, e4, h1, h2, e5, k1, k2, e6]"
    by (simp add: predict_results_def Let_def a1_def a2_def e1_def b1_def e2_def c1_def
        c2_def e3_def t1_def t2_def t3_def e4_def h1_def h2_def e5_def k1_def k2_def e6_def)
  show ?thesis
    unfolding r using a1 a2 e1 b1 e2 c1 c2 e3 t1 t2 t3 e4 h1 h2 e5 k1 k2 e6 m U
    by simp
qed

lemma predict_results_last:
  "efficiency (predict i) = max (lit 0.1) (min (lit 0.85) (last (predict_results i)))"
  by (simp add: predict_def predict_results_def Let_def)

section \<open>Properties of the yearly evolution\<close>

declare evolution_loop.simps [simp del]

lemma loop_done: "\<not> int yr \<le> M \<Longrightarrow> evolution_loop b M yr data = Inr data"
  by (subst evolution_loop.simps) simp

lemma loop_step_first:
  "0 \<le> M \<Longrightarrow> evolution_loop b M 0 data =
     evolution_loop b M (Suc 0) (data @ [pushed_record b (raw_percent b 0) 0])"
  by (subst evolution_loop.simps) (simp add: Let_def pushed_record_def raw_percent_def)

lemma loop_step_later:
  "int yr \<le> M \<Longrightarrow> 0 < yr \<Longrightarrow> data \<noteq> [] \<Longrightarrow> evolution_loop b M yr data =
     evolution_loop b M (Suc yr) (data @ [pushed_record b (efficiency_1 (hd data)) yr])"
  by (subst evolution_loop.simps)
     (simp add: Let_def pushed_record_def raw_percent_def split: list.splits)

text \<open>
  From a year after the first and a non-empty array, the loop never reads
  \<open>undefined\<close>: it appends one record for each remaining year, all of them normalised
  by the first element of the array.
\<close>

lemma loop_from:
  "data \<noteq> [] \<Longrightarrow> 0 < yr \<Longrightarrow>
     evolution_loop b M yr data =
       Inr (data @ map (pushed_record b (efficiency_1 (hd data))) [yr ..< nat (M + 1)])"
proof (induction "nat (M + 1) - yr" arbitrary: yr data)
  case 0
  then have "\<not> int yr \<le> M" by linarith
  moreover from 0 have "[yr ..< nat (M + 1)] = []" by simp
  ultimately show ?case by (simp add: loop_done)
next
  case (Suc k)
  then have le: "int yr \<le> M" by linarith
  have upt: "[yr ..< nat (M + 1)] = yr # [Suc yr ..< nat (M + 1)]"
    using Suc.hyps(2) by (simp add: upt_conv_Cons)
  have k: "k = nat (M + 1) - Suc yr" using Suc.hyps(2) by simp
  let ?d = "data @ [pushed_record b (efficiency_1 (hd data)) yr]"
  have "evolution_loop b M (Suc yr) ?d =
      Inr (?d @ map (pushed_record b (efficiency_1 (hd ?d))) [Suc yr ..< nat (M + 1)])"
    by (rule Suc.hyps(1) [OF k]) simp_all
  moreover have "hd ?d = hd data" using Suc.prems(1) by simp
  ultimately show ?case
    using loop_step_later [OF le Suc.prems(2) Suc.prems(1), of b] upt by simp
qed

lemma loop_all:
  "evolution_loop b M 0 [] =
     (if 0 \<le> M
      then Inr (pushed_record b (raw_percent b 0) 0 #
             map (pushed_record b (efficiency_1 (pushed_record b (raw_percent b 0) 0)))
               [1 ..< nat (M + 1)])
      else Inr [])"
proof (cases "0 \<le> M")
  case True
  then show ?thesis
    using loop_step_first [OF True, of b "[]"]
      loop_from [of "[pushed_record b (raw_percent b 0) 0]" "Suc 0" b M]
    by simp
next
  case False
  then show ?thesis by (simp add: loop_done)
qed

text \<open>
  The percentage of a year, before \<open>Math.round\<close>, lies between 10 and 85: the year-0
  percentage that the degradations are divided by is not 0.
\<close>

lemma raw_percent_bounds: "10 \<le> raw_percent b y" "raw_percent b y \<le> 85"
proof -
  let ?e = "efficiency (predict (b\<lparr>panel_age := real y\<rparr>))"
  have "dmul (lit 0.1) 100 \<le> dmul ?e 100"
    by (intro dmul_mono predict_bounds_lit) simp
  then show "10 \<le> raw_percent b y"
    by (simp add: raw_percent_def flops)
  have "dmul ?e 100 \<le> dmul (lit 0.85) 100"
    by (intro dmul_mono predict_bounds_lit) simp
  then show "raw_percent b y \<le> 85"
    by (simp add: raw_percent_def flops)
qed

lemma degradation_first: "degradation (pushed_record b (raw_percent b 0) 0) = 0"
  by (simp add: pushed_record_def math_round_def dsub_def ddiv_def dmul_def)

lemma year_pushed_record: "year (pushed_record b i y) = y"
  by (simp add: pushed_record_def)

lemma map_year_pushed: "map year (map (pushed_record b i) ys) = ys"
  by (induction ys) (simp_all add: year_pushed_record)

lemma evolution_shape:
  assumes "0 \<le> M"
  shows "\<exists>rs. evolution_loop b M 0 [] = Inr rs
           \<and> length rs = nat M + 1
           \<and> map year rs = [0 ..< nat M + 1]
           \<and> degradation (rs ! 0) = 0"
proof -
  let ?r0 = "pushed_record b (raw_percent b 0) 0"
  let ?rest = "map (pushed_record b (efficiency_1 ?r0)) [1 ..< nat (M + 1)]"
  have run: "evolution_loop b M 0 [] = Inr (?r0 # ?rest)"
    using assms by (simp add: loop_all)
  have len: "length (?r0 # ?rest) = nat M + 1"
    using assms by (simp add: nat_add_distrib)
  have "[0 ..< nat M + 1] = 0 # [1 ..< nat (M + 1)]"
    using assms by (simp add: upt_conv_Cons nat_add_distrib)
  then have yrs: "map year (?r0 # ?rest) = [0 ..< nat M + 1]"
    by (simp only: list.map map_year_pushed year_pushed_record)
  have "degradation ((?r0 # ?rest) ! 0) = 0"
    by (simp add: degradation_first)
  with run len yrs show ?thesis by blast
qed

text \<open>
  \<^bold>\<open>C4.\<close> For every base vector and every \<open>maxYears\<close> that is at least 0,
  \<open>generateYearlyEvolution\<close> returns normally, with exactly \<open>maxYears + 1\<close> records whose
  years are 0, 1, ..., \<open>maxYears\<close> in this order, and the degradation of the record of
  year 0 is 0. Without the second argument the bound is 35, which gives 36 records.
  The percentage that the degradation of year 0 is divided by is at least 10.
\<close>

theorem C4_evolution_shape:
  "(0 \<le> M \<longrightarrow>
      (\<exists>rs. generateYearlyEvolution b (Some M) = Inr rs
         \<and> length rs = nat M + 1
         \<and> map year rs = [0 ..< nat M + 1]
         \<and> degradation (rs ! 0) = 0))
   \<and> (\<exists>rs. generateYearlyEvolution b None = Inr rs
         \<and> length rs = 35 + 1
         \<and> map year rs = [0 ..< 35 + 1]
         \<and> degradation (rs ! 0) = 0)
   \<and> 10 \<le> raw_percent b 0"
proof (intro conjI impI)
  assume "0 \<le> M"
  from evolution_shape [OF this, of b]
  show "\<exists>rs. generateYearlyEvolution b (Some M) = Inr rs
         \<and> length rs = nat M + 1 \<and> map year rs = [0 ..< nat M + 1]
         \<and> degradation (rs ! 0) = 0"
    by (simp add: generateYearlyEvolution_def)
next
  have "(0::int) \<le> 35" by simp
  from evolution_shape [OF this, of b]
  show "\<exists>rs. generateYearlyEvolution b None = Inr rs
         \<and> length rs = 35 + 1 \<and> map year rs = [0 ..< 35 + 1]
         \<and> degradation (rs ! 0) = 0"
    by (simp add: generateYearlyEvolution_def del: upt.simps upt_Suc)
next
  show "10 \<le> raw_percent b 0" by (rule raw_percent_bounds)
qed

theorem C4_evolution_shape_witness:
  "(0::int) \<le> 2
   \<and> (\<exists>rs. generateYearlyEvolution example_vector (Some 2) = Inr rs
         \<and> length rs = 3
         \<and> map year rs = [0, 1, 2]
         \<and> degradation (rs ! 0) = 0)"
proof -
  have h: "(0::int) \<le> 2" by simp
  have "[0 ..< nat 2 + 1] = [0, 1, 2]" by (simp add: upt_conv_Cons)
  with h C4_evolution_shape [of 2 example_vector] show ?thesis
    by simp
qed

lemma evolution_records:
  assumes "generateYearlyEvolution b mo = Inr rs" and "r \<in> set rs"
  shows "\<exists>i. r = pushed_record b i (year r)"
proof -
  from assms obtain i y where "r = pushed_record b i y"
    by (auto simp: generateYearlyEvolution_def loop_all split: if_splits)
  then show ?thesis by (auto simp: year_pushed_record)
qed

lemma borderline_efficiency:
  "efficiency (predict (borderline_vector\<lparr>panel_age := 0\<rparr>))
     = 5401617393068173 / 9007199254740992"
  by (simp add: predict_def Let_def borderline_vector_def flops)

lemma borderline_raw: "raw_percent borderline_vector 0 = 2110006794167255 / 35184372088832"
  by (simp add: raw_percent_def borderline_efficiency flops)

lemma borderline_pushed:
  "pushed_record borderline_vector (raw_percent borderline_vector 0) 0 = borderline_record"
  by (simp add: pushed_record_def borderline_raw borderline_efficiency flops math_round_def
      borderline_record_def)

lemma borderline_run:
  "generateYearlyEvolution borderline_vector (Some 0) = Inr [borderline_record]"
  by (simp add: generateYearlyEvolution_def loop_all borderline_pushed)

lemma borderline_run_default:
  "\<not> isl (generateYearlyEvolution borderline_vector None)"
  "hd (projr (generateYearlyEvolution borderline_vector None)) = borderline_record"
proof -
  have "\<exists>rest. generateYearlyEvolution borderline_vector None = Inr (borderline_record # rest)"
    by (simp add: generateYearlyEvolution_def loop_all borderline_pushed
        del: upt.simps upt_Suc)
  then obtain rest
    where "generateYearlyEvolution borderline_vector None = Inr (borderline_record # rest)" ..
  then show "\<not> isl (generateYearlyEvolution borderline_vector None)"
    and "hd (projr (generateYearlyEvolution borderline_vector None)) = borderline_record"
    by simp_all
qed

text \<open>
  The same at the thresholds of the status: these two percentages are 45 and 60 in
  exact arithmetic, and the program's are a few binary64 steps below, so that the
  records hold 45 with \<open>A_remplacer\<close> and 60 with \<open>Acceptable\<close>.
\<close>

lemma sample_forty_five:
  "raw_percent (sample_vector 170 (lit 0.71) 0) 0 = 6333186975989759 / 2 ^ 47"
  "generateYearlyEvolution (sample_vector 170 (lit 0.71) 0) (Some 0) =
     Inr [\<lparr> year = 0, efficiency_1 = 45, production = 270, degradation = 0,
            status = A_remplacer \<rparr>]"
  by (simp_all add: generateYearlyEvolution_def loop_all pushed_record_def raw_percent_def
      predict_def Let_def sample_vector_def flops math_round_def)

lemma sample_sixty:
  "raw_percent (sample_vector 740 (lit 0.38) 0) 0 = 4222124650659839 / 2 ^ 46"
  "generateYearlyEvolution (sample_vector 740 (lit 0.38) 0) (Some 0) =
     Inr [\<lparr> year = 0, efficiency_1 = 60, production = 360, degradation = 0,
            status = Acceptable \<rparr>]"
  by (simp_all add: generateYearlyEvolution_def loop_all pushed_record_def raw_percent_def
      predict_def Let_def sample_vector_def flops math_round_def)

text \<open>
  The rounded percentage of year 0, which the later degradations are divided by, is
  at least 10 as well.
\<close>

lemma first_record_divisor:
  "10 \<le> efficiency_1 (pushed_record b (raw_percent b 0) 0)"
proof -
  have "dmul 10 10 \<le> dmul (raw_percent b 0) 10"
    by (intro dmul_mono raw_percent_bounds) simp
  then have "ddiv (math_round (dmul 10 10)) 10
      \<le> ddiv (math_round (dmul (raw_percent b 0) 10)) 10"
    by (intro ddiv_mono math_round_mono) simp_all
  then show ?thesis
    by (simp add: pushed_record_def flops math_round_def)
qed

text \<open>
  \<^bold>\<open>C8\<close>, as stated, fails. For the borderline vector the percentage of year 0 is
  the binary64 number written 59.97, below 60: the record holds the rounded percentage
  60.0, which is at least 60, and the status \<open>Acceptable\<close>, not \<open>Bon\<close>. It is the only
  record when \<open>maxYears\<close> is 0 and the first record of the call that the application
  makes, without the second argument.
\<close>

theorem C8_counterexample:
  "generateYearlyEvolution borderline_vector (Some 0) = Inr [borderline_record]
   \<and> \<not> isl (generateYearlyEvolution borderline_vector None)
   \<and> hd (projr (generateYearlyEvolution borderline_vector None)) = borderline_record
   \<and> efficiency_1 borderline_record \<ge> 60
   \<and> status borderline_record = Acceptable
   \<and> status borderline_record \<noteq> Bon"
  by (simp add: borderline_run borderline_run_default) (simp add: borderline_record_def)

text \<open>
  \<^bold>\<open>C8\<close>, amended. In every record that \<open>generateYearlyEvolution\<close> produces, the
  status is decided by the percentage of that year before it is rounded to one
  decimal, that is by the binary64 product of the efficiency and 100: \<open>Bon\<close> exactly
  when it is at least 60, \<open>Acceptable\<close> exactly when it is at least 45 and below 60,
  \<open>A_remplacer\<close> exactly when it is below 45. The percentage stored in the record is
  that number times 10, rounded by \<open>Math.round\<close> and divided by 10.
\<close>

theorem C8_status_unrounded:
  assumes "generateYearlyEvolution b mo = Inr rs" and "r \<in> set rs"
  shows "efficiency_1 r = ddiv (math_round (dmul (raw_percent b (year r)) 10)) 10
    \<and> (status r = Bon \<longleftrightarrow> raw_percent b (year r) \<ge> 60)
    \<and> (status r = Acceptable \<longleftrightarrow> 45 \<le> raw_percent b (year r) \<and> raw_percent b (year r) < 60)
    \<and> (status r = A_remplacer \<longleftrightarrow> raw_percent b (year r) < 45)"
proof -
  from evolution_records [OF assms] obtain i where "r = pushed_record b i (year r)" ..
  then have "efficiency_1 r = efficiency_1 (pushed_record b i (year r))"
    and "status r = status (pushed_record b i (year r))"
    by simp_all
  then show ?thesis
    by (simp add: pushed_record_def)
qed

theorem C8_status_unrounded_witness:
  "generateYearlyEvolution borderline_vector (Some 0) = Inr [borderline_record]
   \<and> borderline_record \<in> set [borderline_record]
   \<and> efficiency_1 borderline_record
       = ddiv (math_round (dmul (raw_percent borderline_vector 0) 10)) 10
   \<and> status borderline_record \<noteq> Bon
   \<and> raw_percent borderline_vector 0 < 60"
proof -
  have m: "borderline_record \<in> set [borderline_record]" by simp
  have y: "year borderline_record = 0" by (simp add: borderline_record_def)
  from C8_status_unrounded [OF borderline_run m] show ?thesis
    by (simp add: y borderline_run borderline_raw)
qed

section \<open>Properties of the maintenance comparison\<close>

lemma assign_scenario_eq:
  "assign_scenario b ir y dp sc = dp\<lparr>series := (series dp)(name sc \<mapsto> stored b ir y sc)\<rparr>"
  by (simp add: assign_scenario_def stored_def Let_def)

lemma stored_le: "stored b ir y sc \<le> ddiv (math_round (dmul (efficiency ir) 1000)) 10"
  unfolding stored_def
  by (intro ddiv_mono math_round_mono dmul_mono) simp_all

lemma predict_soiling_le:
  "s1 \<le> s2 \<Longrightarrow>
     efficiency (predict (b\<lparr>panel_age := a, soiling_ratio := s1, maintenance_count := m\<rparr>))
     \<le> efficiency (predict (b\<lparr>panel_age := a, soiling_ratio := s2, maintenance_count := m\<rparr>))"
  by (simp add: predict_efficiency estimate_mono_soiling)

text \<open>
  A scenario that loses no more cleanliness each year and earns no less bonus gets a
  number that is no smaller, at every year.
\<close>

lemma stored_mono:
  assumes "soilingDecay s2 \<le> soilingDecay s1" "maintenanceBonus s1 \<le> maintenanceBonus s2"
  shows "stored b ir y s1 \<le> stored b ir y s2"
proof -
  have "dmul (soilingDecay s2) (real y) \<le> dmul (soilingDecay s1) (real y)"
    using assms(1) by (intro dmul_mono) simp_all
  then have "dsub (lit 0.85) (dmul (soilingDecay s1) (real y))
      \<le> dsub (lit 0.85) (dmul (soilingDecay s2) (real y))"
    by (intro dsub_mono) simp_all
  then have "max (lit 0.4) (dsub (lit 0.85) (dmul (soilingDecay s1) (real y)))
      \<le> max (lit 0.4) (dsub (lit 0.85) (dmul (soilingDecay s2) (real y)))"
    by (intro max.mono order_refl)
  from predict_soiling_le [OF this]
  have e: "efficiency (predict (b\<lparr>panel_age := real y,
         soiling_ratio := max (lit 0.4) (dsub (lit 0.85) (dmul (soilingDecay s1) (real y))),
         maintenance_count := min (real y) 10\<rparr>))
      \<le> efficiency (predict (b\<lparr>panel_age := real y,
         soiling_ratio := max (lit 0.4) (dsub (lit 0.85) (dmul (soilingDecay s2) (real y))),
         maintenance_count := min (real y) 10\<rparr>))" (is "?e1 \<le> ?e2") .
  have "dmul (maintenanceBonus s1) (real y) \<le> dmul (maintenanceBonus s2) (real y)"
    using assms(2) by (intro dmul_mono) simp_all
  with e have "dadd ?e1 (dmul (maintenanceBonus s1) (real y))
      \<le> dadd ?e2 (dmul (maintenanceBonus s2) (real y))"
    by (intro dadd_mono)
  then have "min (dadd ?e1 (dmul (maintenanceBonus s1) (real y))) (efficiency ir)
      \<le> min (dadd ?e2 (dmul (maintenanceBonus s2) (real y))) (efficiency ir)"
    by (simp add: min_def)
  then show ?thesis
    unfolding stored_def
    by (intro ddiv_mono math_round_mono dmul_mono) simp_all
qed

lemma reference_percent_eq:
  "reference_percent b = ddiv (math_round (dmul (efficiency (initial_result b)) 1000)) 10"
  by (simp add: reference_percent_def initial_result_def)

text \<open>The whole output: seven points, each with the four scenario names.\<close>

lemma comparison_points:
  "generateMaintenanceComparison b =
     \<lparr> point_year = 0, series = [Sans_entretien \<mapsto> reference_percent b,
         Entretien_minimal \<mapsto> reference_percent b, Entretien_regulier \<mapsto> reference_percent b,
         Entretien_optimal \<mapsto> reference_percent b] \<rparr> #
     map (\<lambda>y. \<lparr> point_year = y, series = [
         Sans_entretien \<mapsto> stored b (initial_result b) y (scenarios ! 0),
         Entretien_minimal \<mapsto> stored b (initial_result b) y (scenarios ! 1),
         Entretien_regulier \<mapsto> stored b (initial_result b) y (scenarios ! 2),
         Entretien_optimal \<mapsto> stored b (initial_result b) y (scenarios ! 3)] \<rparr>)
       [5, 10, 15, 20, 25, 30]"
  by (simp add: generateMaintenanceComparison_def Let_def years_def assign_scenario_eq
      assign_initial_def reference_percent_eq initial_result_def scenarios_def)

lemma borderline_initial:
  "efficiency (initial_result borderline_vector) = 5401617393068173 / 9007199254740992"
  by (simp add: initial_result_def predict_def Let_def borderline_vector_def flops)

text \<open>
  Year 30 without maintenance: the soiling ratio is the binary64 number of 0.4.
\<close>

lemma borderline_soiling30:
  "max (lit 0.4) (dsub (lit 0.85) (dmul (lit 0.015) 30))
     = 3602879701896397 / 9007199254740992"
  by (simp add: flops)

lemma borderline_year30:
  "efficiency (predict (borderline_vector\<lparr>panel_age := 30,
       soiling_ratio := 3602879701896397 / 9007199254740992,
       maintenance_count := 10\<rparr>)) = 8351989846096117 / 18014398509481984"
  by (simp add: predict_def Let_def borderline_vector_def flops)

lemma borderline_comparison:
  "series (generateMaintenanceComparison borderline_vector ! 6) Sans_entretien
     = Some (lit 46.4)"
proof -
  have "stored borderline_vector (initial_result borderline_vector) 30 (scenarios ! 0)
      = lit 46.4"
    by (simp add: stored_def scenarios_def borderline_soiling30 borderline_year30
        borderline_initial flops math_round_def)
  then show ?thesis by (simp add: comparison_points)
qed

text \<open>
  \<^bold>\<open>C5.\<close> For every base vector the first point of the comparison is the point of
  year 0, and its four scenario values are the same number: the reference percentage,
  computed from the base vector with panel age 0, soiling ratio 0.85 and maintenance
  count 0.
\<close>

theorem C5_year0_equal:
  "point_year (generateMaintenanceComparison b ! 0) = 0
   \<and> series (generateMaintenanceComparison b ! 0) Sans_entretien = Some (reference_percent b)
   \<and> series (generateMaintenanceComparison b ! 0) Entretien_minimal = Some (reference_percent b)
   \<and> series (generateMaintenanceComparison b ! 0) Entretien_regulier = Some (reference_percent b)
   \<and> series (generateMaintenanceComparison b ! 0) Entretien_optimal = Some (reference_percent b)"
  by (simp add: comparison_points)

text \<open>
  \<^bold>\<open>C6.\<close> For every base vector the points of the comparison are those of the years
  0, 5, 10, 15, 20, 25 and 30, and in each of them every one of the four scenarios has
  a value, which does not exceed the reference percentage of that base vector.
\<close>

theorem C6_never_above_reference:
  "map point_year (generateMaintenanceComparison b) = [0, 5, 10, 15, 20, 25, 30]
   \<and> (\<forall>pt \<in> set (generateMaintenanceComparison b). \<forall>n.
         \<exists>v. series pt n = Some v \<and> v \<le> reference_percent b)"
proof -
  have le: "stored b (initial_result b) y sc \<le> reference_percent b" for y sc
    using stored_le [of b "initial_result b" y sc] by (simp add: reference_percent_eq)
  have "\<exists>v. series pt n = Some v \<and> v \<le> reference_percent b"
    if "pt \<in> set (generateMaintenanceComparison b)" for pt n
    using that le by (cases n) (auto simp: comparison_points)
  then show ?thesis
    by (simp add: comparison_points)
qed

theorem C6_never_above_reference_witness:
  "generateMaintenanceComparison borderline_vector ! 6
     \<in> set (generateMaintenanceComparison borderline_vector)
   \<and> series (generateMaintenanceComparison borderline_vector ! 6) Sans_entretien
       = Some (lit 46.4)
   \<and> lit 46.4 \<le> reference_percent borderline_vector"
proof -
  have m: "generateMaintenanceComparison borderline_vector ! 6
     \<in> set (generateMaintenanceComparison borderline_vector)"
    by (simp add: comparison_points)
  with C6_never_above_reference [of borderline_vector]
  obtain v where "series (generateMaintenanceComparison borderline_vector ! 6) Sans_entretien
      = Some v" and "v \<le> reference_percent borderline_vector"
    by blast
  with m show ?thesis
    by (simp add: borderline_comparison)
qed

text \<open>
  \<^bold>\<open>C7.\<close> For every base vector the seventh point of the comparison is the point of
  year 30, and its values are ordered: optimal maintenance at least regular, regular
  at least minimal, minimal at least no maintenance.
\<close>

theorem C7_year30_order:
  "\<exists>opt reg mini sans.
      point_year (generateMaintenanceComparison b ! 6) = 30
    \<and> series (generateMaintenanceComparison b ! 6) Entretien_optimal = Some opt
    \<and> series (generateMaintenanceComparison b ! 6) Entretien_regulier = Some reg
    \<and> series (generateMaintenanceComparison b ! 6) Entretien_minimal = Some mini
    \<and> series (generateMaintenanceComparison b ! 6) Sans_entretien = Some sans
    \<and> opt \<ge> reg \<and> reg \<ge> mini \<and> mini \<ge> sans"
proof -
  have "stored b ir y (scenarios ! 0) \<le> stored b ir y (scenarios ! 1)"
    "stored b ir y (scenarios ! 1) \<le> stored b ir y (scenarios ! 2)"
    "stored b ir y (scenarios ! 2) \<le> stored b ir y (scenarios ! 3)" for ir y
    by (rule stored_mono; simp add: scenarios_def)+
  then show ?thesis
    by (simp add: comparison_points)
qed

section \<open>Properties of the prediction handler\<close>

text \<open>
  \<^bold>\<open>C9.\<close> When the health request has failed, \<open>handlePredict\<close> leaves in the state
  the local estimate of the parameter vector and no error message, whatever the remote
  service would answer; the estimate carries the confidence \<open>simulated\<close>, an
  efficiency between 0.10 and 0.85 and the label of that efficiency.
\<close>

theorem C9_local_mode:
  "handlePredict (checkApi (Inl m)) remote i st =
     st\<lparr>prediction := Some (predict i), isLoading := False, error := None\<rparr>
   \<and> confidence (predict i) = ''simulated''
   \<and> 0.1 \<le> efficiency (predict i) \<and> efficiency (predict i) \<le> 0.85
   \<and> quality_label (predict i) = getQualityLabel (efficiency (predict i))"
  using predict_bounds [of i]
  by (simp add: handlePredict_def checkApi_def predict_fields)

end
